theory Spec2Isabelle
  imports Complex_Main "HOL-Library.Char_ord" "HOL-Library.List_Lexorder"
begin

section \<open>MissMixed: iterative imputation of mixed-type tables\<close>

text \<open>
  A shallow embedding of \<^verbatim>\<open>src/missmixed/miss_mixed.py\<close>. The class \<^verbatim>\<open>MissMixed\<close> becomes
  a record of its attributes, every method a function that takes the record and returns
  the updated one, and every exception a value of the type \<open>error\<close>.

  The external collaborators (the estimators of \<^verbatim>\<open>missmixed.architecture\<close>, the split of
  \<^verbatim>\<open>missmixed.utils\<close>, the scoring functions and the initial-fill statistic of
  scikit-learn) are parameters, collected in the record \<open>env\<close>: the theorems hold for
  every choice of them. Logging and the progress bar are not modelled.
\<close>

subsection \<open>Floating-point values\<close>

text \<open>
  A float is NaN, an infinity or a finite number. Finite arithmetic is exact (rounding is
  not modelled); comparison and the special values follow IEEE 754, so that every
  comparison with NaN is false.
\<close>

datatype pyfloat = NaN | NInf | Fin rat | PInf

fun fl_less :: "pyfloat \<Rightarrow> pyfloat \<Rightarrow> bool" where
  "fl_less NaN _ = False"
| "fl_less _ NaN = False"
| "fl_less NInf NInf = False"
| "fl_less NInf _ = True"
| "fl_less (Fin a) (Fin b) = (a < b)"
| "fl_less (Fin _) PInf = True"
| "fl_less (Fin _) NInf = False"
| "fl_less PInf _ = False"

fun fl_le :: "pyfloat \<Rightarrow> pyfloat \<Rightarrow> bool" where
  "fl_le NaN _ = False"
| "fl_le _ NaN = False"
| "fl_le NInf _ = True"
| "fl_le (Fin a) (Fin b) = (a \<le> b)"
| "fl_le (Fin _) PInf = True"
| "fl_le (Fin _) NInf = False"
| "fl_le PInf PInf = True"
| "fl_le PInf _ = False"

text \<open>\<^verbatim>\<open>x * d\<close> for a float \<open>x\<close> and a Python int \<open>d\<close>.\<close>

fun fl_mul_int :: "pyfloat \<Rightarrow> int \<Rightarrow> pyfloat" where
  "fl_mul_int NaN d = NaN"
| "fl_mul_int (Fin a) d = Fin (a * of_int d)"
| "fl_mul_int PInf d = (if d > 0 then PInf else if d < 0 then NInf else NaN)"
| "fl_mul_int NInf d = (if d > 0 then NInf else if d < 0 then PInf else NaN)"

fun fl_sub :: "pyfloat \<Rightarrow> pyfloat \<Rightarrow> pyfloat" where
  "fl_sub NaN _ = NaN"
| "fl_sub _ NaN = NaN"
| "fl_sub PInf PInf = NaN"
| "fl_sub NInf NInf = NaN"
| "fl_sub PInf _ = PInf"
| "fl_sub NInf _ = NInf"
| "fl_sub (Fin _) PInf = NInf"
| "fl_sub (Fin _) NInf = PInf"
| "fl_sub (Fin a) (Fin b) = Fin (a - b)"

text \<open>Division never raises on floats: a zero divisor gives NaN or an infinity.\<close>

fun fl_div :: "pyfloat \<Rightarrow> pyfloat \<Rightarrow> pyfloat" where
  "fl_div NaN _ = NaN"
| "fl_div _ NaN = NaN"
| "fl_div (Fin a) (Fin b) =
     (if b = 0 then (if a = 0 then NaN else if a > 0 then PInf else NInf)
      else Fin (a / b))"
| "fl_div (Fin _) _ = Fin 0"
| "fl_div PInf (Fin b) = (if b < 0 then NInf else PInf)"
| "fl_div NInf (Fin b) = (if b < 0 then PInf else NInf)"
| "fl_div _ _ = NaN"

fun fl_mul :: "pyfloat \<Rightarrow> pyfloat \<Rightarrow> pyfloat" where
  "fl_mul NaN _ = NaN"
| "fl_mul _ NaN = NaN"
| "fl_mul (Fin a) (Fin b) = Fin (a * b)"
| "fl_mul (Fin a) PInf = (if a > 0 then PInf else if a < 0 then NInf else NaN)"
| "fl_mul (Fin a) NInf = (if a > 0 then NInf else if a < 0 then PInf else NaN)"
| "fl_mul PInf (Fin b) = (if b > 0 then PInf else if b < 0 then NInf else NaN)"
| "fl_mul NInf (Fin b) = (if b > 0 then NInf else if b < 0 then PInf else NaN)"
| "fl_mul PInf PInf = PInf"
| "fl_mul NInf NInf = PInf"
| "fl_mul PInf NInf = NInf"
| "fl_mul NInf PInf = NInf"

text \<open>\<^verbatim>\<open>np.maximum(x, 0.0)\<close> on one element: NaN is propagated.\<close>

definition clamp0 :: "pyfloat \<Rightarrow> pyfloat" where
  "clamp0 x = (if fl_less x (Fin 0) then Fin 0 else x)"

subsection \<open>Errors, cells and tables\<close>

text \<open>
  \<open>InvalidMetric\<close> is the \<^verbatim>\<open>ValueError\<close> that \<^verbatim>\<open>__init_metrics\<close> raises; \<open>ValueError\<close>
  stands for the ones raised by the libraries.
\<close>

datatype error = AttributeError | InvalidMetric | IndexError | KeyError | TypeError
  | ValueError | ZeroDivisionError

text \<open>
  A cell of a data frame is a number or a string; a missing cell is NaN, as in pandas.
  A frame is the list of its columns, each with its label. The labels are Python ints
  (\<^verbatim>\<open>__clean_working_data\<close> uses them as list indices) and the rows are identified by
  their position (the row index is a \<^verbatim>\<open>RangeIndex\<close>); all columns of a frame have the
  same length.
\<close>

datatype cell = Num pyfloat | Str string

definition notna :: "cell \<Rightarrow> bool" where
  "notna v = (v \<noteq> Num NaN)"

type_synonym frame = "(int \<times> cell list) list"

type_synonym matrix = "pyfloat list list"


datatype metric_fn = R2_score | Accuracy_score | Mean_squared_error

text \<open>
  \<^verbatim>\<open>SharedData\<close> (\<^verbatim>\<open>missmixed.utils\<close>) is a store of named values; the four names the class
  uses are the fields. A name that has not been set yet holds \<open>None\<close>.
\<close>

record shared_data =
  sd_categorical_columns :: "bool list option"
  sd_category_counts :: "nat list option"
  sd_processing_col_idx :: "nat option"
  sd_is_categorical :: "bool option"

text \<open>
  Modelled from the spec: \<^verbatim>\<open>SharedData.is_categorical()\<close> is not in the source files. The
  spec's per-run context holds the current column index and "the categorical flag" of the
  column being processed; the method takes no argument and reads that flag.
\<close>

definition shared_is_categorical :: "shared_data \<Rightarrow> bool" where
  "shared_is_categorical sh = (sd_is_categorical sh = Some True)"

record miss_mixed =
  raw_data :: frame
  working_data :: frame
  categorical_columns :: "bool list"
  train_size :: rat
  early_stopping :: bool
  iter_per_stopping :: int
  tolerance_percentage :: rat
  shared :: shared_data
  column_to_encoder :: "(nat \<times> cell list) list"
  num_of_columns :: nat
  imputed_df :: matrix
  metric_direction :: int
  non_categorical_metric :: metric_fn
  categorical_metric :: metric_fn
  max_metric_tests :: "pyfloat list"
  metric :: "metric_fn option"

text \<open>
  The collaborators. An estimator is a value of type \<open>'i\<close>: \<open>set_model\<close> selects its
  variant for a categorical or numerical target, \<open>has_model\<close> is \<^verbatim>\<open>imputer.model is not None\<close>,
  \<open>fit\<close> returns the fitted estimator, and a copy of an estimator is the value itself.
  \<open>fill_statistic\<close> is the statistic of \<^verbatim>\<open>SimpleImputer\<close> for a strategy and the observed
  values of a column.
\<close>

record 'i env =
  fill_statistic :: "string \<Rightarrow> pyfloat list \<Rightarrow> error + pyfloat"
  train_test_split ::
    "pyfloat list list \<Rightarrow> cell list \<Rightarrow> rat
      \<Rightarrow> pyfloat list list \<times> cell list \<times> pyfloat list list \<times> cell list"
  metric_eval :: "metric_fn \<Rightarrow> cell list \<Rightarrow> pyfloat list \<Rightarrow> pyfloat"
  set_model :: "bool \<Rightarrow> 'i \<Rightarrow> 'i"
  has_model :: "'i \<Rightarrow> bool"
  trials :: "'i \<Rightarrow> int"
  fit :: "pyfloat list list \<Rightarrow> cell list \<Rightarrow> 'i \<Rightarrow> 'i"
  predict :: "'i \<Rightarrow> pyfloat list list \<Rightarrow> pyfloat list"

subsection \<open>Construction: cleaning\<close>

text \<open>\<^verbatim>\<open>del xs[i]\<close>: a negative index counts from the end, an index out of range raises.\<close>

definition del_item :: "'a list \<Rightarrow> int \<Rightarrow> error + 'a list" where
  "del_item xs i =
     (let n = int (length xs); j = (if i < 0 then n + i else i)
      in if 0 \<le> j \<and> j < n then Inr (take (nat j) xs @ drop (Suc (nat j)) xs)
         else Inl IndexError)"

fun del_items :: "'a list \<Rightarrow> int list \<Rightarrow> error + 'a list" where
  "del_items xs [] = Inr xs"
| "del_items xs (i # is) =
     (case del_item xs i of Inl e \<Rightarrow> Inl e | Inr xs' \<Rightarrow> del_items xs' is)"

definition non_null_count :: "cell list \<Rightarrow> nat" where
  "non_null_count col = length (filter notna col)"

definition columns_to_be_dropped :: "frame \<Rightarrow> int list" where
  "columns_to_be_dropped df = map fst (filter (\<lambda>c. non_null_count (snd c) \<le> 1) df)"

definition drop_columns :: "int list \<Rightarrow> frame \<Rightarrow> frame" where
  "drop_columns labels df = filter (\<lambda>c. fst c \<notin> set labels) df"

text \<open>
  \<^verbatim>\<open>__clean_working_data\<close>: the flags are deleted one label at a time, in the order of
  the columns, then the columns are dropped from the working frame.
\<close>

definition clean_working_data :: "bool list \<Rightarrow> frame \<Rightarrow> error + (bool list \<times> frame)" where
  "clean_working_data cc wd =
     (let dropped = columns_to_be_dropped wd
      in case del_items cc dropped of
           Inl e \<Rightarrow> Inl e
         | Inr cc' \<Rightarrow> Inr (cc', drop_columns dropped wd))"

subsection \<open>Construction: categorical encoding\<close>

text \<open>
  \<^verbatim>\<open>LabelEncoder\<close>: the classes are the sorted distinct values, the code of a value is its
  position among them. Values that are not all numbers or all strings cannot be sorted.
\<close>

fun is_num :: "cell \<Rightarrow> bool" where
  "is_num (Num _) = True"
| "is_num (Str _) = False"

fun cell_le :: "cell \<Rightarrow> cell \<Rightarrow> bool" where
  "cell_le (Num a) (Num b) = fl_le a b"
| "cell_le (Str a) (Str b) = (a \<le> b)"
| "cell_le (Num _) (Str _) = True"
| "cell_le (Str _) (Num _) = False"

fun insort_cell :: "cell \<Rightarrow> cell list \<Rightarrow> cell list" where
  "insort_cell x [] = [x]"
| "insort_cell x (y # ys) = (if cell_le x y then x # y # ys else y # insort_cell x ys)"

definition sort_cells :: "cell list \<Rightarrow> cell list" where
  "sort_cells xs = foldr insort_cell xs []"

definition uniform :: "cell list \<Rightarrow> bool" where
  "uniform xs = (list_all is_num xs \<or> list_all (\<lambda>v. \<not> is_num v) xs)"

fun index_of :: "'a list \<Rightarrow> 'a \<Rightarrow> nat" where
  "index_of [] x = 0"
| "index_of (y # ys) x = (if x = y then 0 else Suc (index_of ys x))"

definition label_encoder_fit :: "cell list \<Rightarrow> error + cell list" where
  "label_encoder_fit xs =
     (if uniform xs then Inr (sort_cells (remdups xs)) else Inl TypeError)"

definition label_encoder_transform :: "cell list \<Rightarrow> cell \<Rightarrow> cell" where
  "label_encoder_transform classes v = Num (Fin (of_nat (index_of classes v)))"

text \<open>\<^verbatim>\<open>inverse_transform\<close> raises on a code that is not the position of a class.\<close>

fun label_encoder_inverse_transform :: "cell list \<Rightarrow> int list \<Rightarrow> error + cell list" where
  "label_encoder_inverse_transform classes [] = Inr []"
| "label_encoder_inverse_transform classes (k # ks) =
     (if 0 \<le> k \<and> k < int (length classes)
      then (case label_encoder_inverse_transform classes ks of
              Inl e \<Rightarrow> Inl e
            | Inr vs \<Rightarrow> Inr (classes ! nat k # vs))
      else Inl ValueError)"

text \<open>
  The masked assignment
  \<^verbatim>\<open>col[non_null_mask] = encoder.fit_transform(col[non_null_mask])\<close>
  replaces every observed cell by its code and leaves the missing ones.
\<close>

definition encode_column :: "cell list \<Rightarrow> cell list \<Rightarrow> cell list" where
  "encode_column classes col =
     map (\<lambda>v. if notna v then label_encoder_transform classes v else v) col"

text \<open>
  The loop of \<^verbatim>\<open>__process_categorical_data\<close> over \<^verbatim>\<open>enumerate(self.categorical_columns)\<close>;
  \<^verbatim>\<open>iloc[:, col_idx]\<close> raises when the flag list is longer than the frame. The dictionary
  \<^verbatim>\<open>column_to_encoder\<close> is an association list, read with \<open>map_of\<close>; an encoder is
  the list of its classes.
\<close>

fun encode_loop ::
  "nat \<Rightarrow> bool list \<Rightarrow> frame \<times> (nat \<times> cell list) list \<times> nat list
    \<Rightarrow> error + (frame \<times> (nat \<times> cell list) list \<times> nat list)" where
  "encode_loop col_idx [] acc = Inr acc"
| "encode_loop col_idx (is_categorical # rest) (wd, encs, counts) =
     (if is_categorical then
        (if col_idx < length wd then
           (let col = snd (wd ! col_idx)
            in case label_encoder_fit (filter notna col) of
                 Inl e \<Rightarrow> Inl e
               | Inr classes \<Rightarrow>
                   encode_loop (Suc col_idx) rest
                     (wd[col_idx := (fst (wd ! col_idx), encode_column classes col)],
                      (col_idx, classes) # encs,
                      counts[col_idx := length classes]))
         else Inl IndexError)
      else encode_loop (Suc col_idx) rest (wd, encs, counts))"

definition process_categorical_data ::
  "bool list \<Rightarrow> frame \<Rightarrow> error + (frame \<times> (nat \<times> cell list) list \<times> shared_data)" where
  "process_categorical_data cc wd =
     (case encode_loop 0 cc (wd, [], replicate (length wd) 1) of
        Inl e \<Rightarrow> Inl e
      | Inr (wd', encs, counts) \<Rightarrow>
          Inr (wd', encs,
               \<lparr>sd_categorical_columns = Some cc, sd_category_counts = Some counts,
                sd_processing_col_idx = None, sd_is_categorical = None\<rparr>))"

subsection \<open>Construction: initial fill and metrics\<close>

fun cell_float :: "cell \<Rightarrow> pyfloat" where
  "cell_float (Num x) = x"
| "cell_float (Str _) = NaN"

text \<open>
  \<^verbatim>\<open>SimpleImputer(strategy).fit_transform\<close> on one column: every missing cell becomes the
  statistic of the observed ones. The model covers numeric frames: a string raises, as
  it does for the strategies \<^verbatim>\<open>mean\<close> and \<^verbatim>\<open>median\<close>.
\<close>

definition fill_column ::
  "(pyfloat list \<Rightarrow> error + pyfloat) \<Rightarrow> cell list \<Rightarrow> error + pyfloat list" where
  "fill_column stat col =
     (if list_all is_num col then
        (case stat (map cell_float (filter notna col)) of
           Inl e \<Rightarrow> Inl e
         | Inr m \<Rightarrow> Inr (map (\<lambda>v. if notna v then cell_float v else m) col))
      else Inl ValueError)"

fun fill_columns ::
  "(pyfloat list \<Rightarrow> error + pyfloat) \<Rightarrow> cell list list \<Rightarrow> error + matrix" where
  "fill_columns stat [] = Inr []"
| "fill_columns stat (col # cols) =
     (case fill_column stat col of
        Inl e \<Rightarrow> Inl e
      | Inr col' \<Rightarrow>
          (case fill_columns stat cols of Inl e \<Rightarrow> Inl e | Inr cols' \<Rightarrow> Inr (col' # cols')))"

text \<open>
  A frame without columns is refused by scikit-learn. After cleaning every column has at
  least two observed values, so \<^verbatim>\<open>SimpleImputer\<close> never meets an empty column.
\<close>

definition simple_imputer :: "'i env \<Rightarrow> string \<Rightarrow> frame \<Rightarrow> error + matrix" where
  "simple_imputer env strategy wd =
     (if wd = [] then Inl ValueError
      else fill_columns (fill_statistic env strategy) (map snd wd))"

definition acceptable_metrics :: "string list" where
  "acceptable_metrics = [''r2_accuracy'', ''mse'']"

text \<open>
  \<^verbatim>\<open>__init_metrics\<close>: the direction, the two scoring functions and the score board
  \<^verbatim>\<open>np.full(num_of_columns, -np.inf * metric_direction)\<close>.
\<close>

definition init_metrics ::
  "string \<Rightarrow> nat \<Rightarrow> error + (int \<times> metric_fn \<times> metric_fn \<times> pyfloat list)" where
  "init_metrics m n =
     (if m \<notin> set acceptable_metrics then Inl InvalidMetric
      else
        (let d = (if m = ''r2_accuracy'' then 1 else - 1)
         in Inr (d,
                 (if m = ''r2_accuracy'' then R2_score else Mean_squared_error),
                 (if m = ''r2_accuracy'' then Accuracy_score else Mean_squared_error),
                 replicate n (fl_mul_int NInf d))))"

text \<open>
  \<^verbatim>\<open>MissMixed.__init__\<close>, in the order of the source: cleaning, encoding, the initial
  fill, and the metrics last.
\<close>

definition MissMixed_init ::
  "'i env \<Rightarrow> frame \<Rightarrow> bool list \<Rightarrow> string \<Rightarrow> string \<Rightarrow> rat \<Rightarrow> bool \<Rightarrow> int \<Rightarrow> rat
    \<Rightarrow> error + miss_mixed" where
  "MissMixed_init env raw cc m initial_strategy ts es ips tol =
     (case clean_working_data cc raw of
        Inl e \<Rightarrow> Inl e
      | Inr (cc', wd) \<Rightarrow>
          (case process_categorical_data cc' wd of
             Inl e \<Rightarrow> Inl e
           | Inr (wd', encs, sh) \<Rightarrow>
               (case simple_imputer env initial_strategy wd' of
                  Inl e \<Rightarrow> Inl e
                | Inr imputed \<Rightarrow>
                    (case init_metrics m (length wd') of
                       Inl e \<Rightarrow> Inl e
                     | Inr (d, ncm, cm, scores) \<Rightarrow>
                         Inr \<lparr>raw_data = raw, working_data = wd',
                              categorical_columns = cc', train_size = ts,
                              early_stopping = es, iter_per_stopping = ips,
                              tolerance_percentage = tol, shared = sh,
                              column_to_encoder = encs, num_of_columns = length wd',
                              imputed_df = imputed, metric_direction = d,
                              non_categorical_metric = ncm, categorical_metric = cm,
                              max_metric_tests = scores, metric = None\<rparr>))))"

subsection \<open>Accepting a candidate score\<close>

text \<open>
  \<^verbatim>\<open>__can_impute\<close>: the candidate is accepted when it is strictly better than the stored
  score in the metric's direction, and then it replaces the stored score.
\<close>

definition can_impute :: "miss_mixed \<Rightarrow> nat \<Rightarrow> pyfloat \<Rightarrow> error + (bool \<times> miss_mixed)" where
  "can_impute s col_index test_score =
     (if col_index < length (max_metric_tests s) then
        (let accept =
               fl_less (fl_mul_int (max_metric_tests s ! col_index) (metric_direction s))
                       (fl_mul_int test_score (metric_direction s))
         in Inr (accept,
                 if accept
                 then s\<lparr>max_metric_tests := (max_metric_tests s)[col_index := test_score]\<rparr>
                 else s))
      else Inl IndexError)"

subsection \<open>Preparing the data of one column\<close>

text \<open>\<^verbatim>\<open>Series.min()\<close> and \<^verbatim>\<open>Series.max()\<close> skip NaN; a series with no value gives NaN.\<close>

definition series_min :: "pyfloat list \<Rightarrow> pyfloat" where
  "series_min xs =
     (case filter (\<lambda>x. x \<noteq> NaN) xs of
        [] \<Rightarrow> NaN
      | y # ys \<Rightarrow> foldl (\<lambda>m x. if fl_less x m then x else m) y ys)"

definition series_max :: "pyfloat list \<Rightarrow> pyfloat" where
  "series_max xs =
     (case filter (\<lambda>x. x \<noteq> NaN) xs of
        [] \<Rightarrow> NaN
      | y # ys \<Rightarrow> foldl (\<lambda>m x. if fl_less m x then x else m) y ys)"

definition normalize_column :: "pyfloat list \<Rightarrow> pyfloat list" where
  "normalize_column col =
     (let col_min = series_min col; col_max = series_max col
      in map (\<lambda>x. fl_mul (fl_div (fl_sub x col_min) (fl_sub col_max col_min)) (Fin 10)) col)"

text \<open>
  \<^verbatim>\<open>__normalize\<close>: the test \<^verbatim>\<open>not self.shared.is_categorical()\<close> is made once per feature
  column, and it does not mention the column.
\<close>

definition normalize :: "shared_data \<Rightarrow> matrix \<Rightarrow> matrix" where
  "normalize sh df_x =
     map (\<lambda>col. if \<not> shared_is_categorical sh then normalize_column col else col) df_x"

text \<open>The columns of \<^verbatim>\<open>imputed_df\<close> are labelled by their positions.\<close>

definition drop_column :: "nat \<Rightarrow> matrix \<Rightarrow> error + matrix" where
  "drop_column c df =
     (if c < length df then Inr (take c df @ drop (Suc c) df) else Inl KeyError)"

definition rows_where :: "(cell \<Rightarrow> bool) \<Rightarrow> cell list \<Rightarrow> nat list" where
  "rows_where P col = filter (\<lambda>r. P (col ! r)) [0..<length col]"

definition take_rows :: "matrix \<Rightarrow> nat list \<Rightarrow> pyfloat list list" where
  "take_rows df rows = map (\<lambda>r. map (\<lambda>col. col ! r) df) rows"

record train_dataset =
  x_train :: "pyfloat list list"
  y_train :: "cell list"
  x_test :: "pyfloat list list"
  y_test :: "cell list"

record impute_dataset =
  x_missing :: "pyfloat list list"
  y_missing_index :: "nat list"

text \<open>
  \<^verbatim>\<open>__dataset_preparation\<close>: the features are the other columns of \<^verbatim>\<open>imputed_df\<close>,
  normalized; the target is the column of \<^verbatim>\<open>working_data\<close>, which still has its
  missing cells.
\<close>

definition dataset_preparation ::
  "'i env \<Rightarrow> miss_mixed \<Rightarrow> nat \<Rightarrow> error + (train_dataset \<times> impute_dataset)" where
  "dataset_preparation env s col_index =
     (case drop_column col_index (imputed_df s) of
        Inl e \<Rightarrow> Inl e
      | Inr features_df \<Rightarrow>
          (if col_index < length (working_data s) then
             (let target_series = snd (working_data s ! col_index);
                  normalized_features = normalize (shared s) features_df;
                  non_missing = rows_where notna target_series;
                  missing = rows_where (\<lambda>v. \<not> notna v) target_series;
                  y_non_missing = map (\<lambda>r. target_series ! r) non_missing;
                  x_non_missing = take_rows normalized_features non_missing;
                  x_miss = take_rows normalized_features missing
              in case train_test_split env x_non_missing y_non_missing (train_size s) of
                   (xtr, ytr, xte, yte) \<Rightarrow>
                     Inr (\<lparr>x_train = xtr, y_train = ytr, x_test = xte, y_test = yte\<rparr>,
                          \<lparr>x_missing = x_miss, y_missing_index = missing\<rparr>))
           else Inl IndexError))"

subsection \<open>Training, selection and update of one column\<close>

text \<open>
  The trials of \<^verbatim>\<open>__process_each_column\<close>: each one fits the estimator, scores the
  clamped predictions on both splits and keeps a copy of the fitted estimator. The
  result is the list of (train, validation) scores, the copies, and the estimator as
  the last trial left it.
\<close>

fun run_trials ::
  "'i env \<Rightarrow> metric_fn \<Rightarrow> train_dataset \<Rightarrow> nat \<Rightarrow> 'i
    \<Rightarrow> (pyfloat \<times> pyfloat) list \<times> 'i list \<times> 'i" where
  "run_trials env m ds 0 imputer = ([], [], imputer)"
| "run_trials env m ds (Suc n) imputer =
     (let fitted = fit env (x_train ds) (y_train ds) imputer;
          y_pred_train = map clamp0 (predict env fitted (x_train ds));
          y_pred_test = map clamp0 (predict env fitted (x_test ds));
          score = (metric_eval env m (y_train ds) y_pred_train,
                   metric_eval env m (y_test ds) y_pred_test)
      in case run_trials env m ds n fitted of
           (scores, models, imputer') \<Rightarrow> (score # scores, fitted # models, imputer'))"

text \<open>
  \<^verbatim>\<open>np.argmax\<close>: the first maximum; a NaN counts as the maximum, and the first NaN is
  returned. An empty sequence raises.
\<close>

fun argmax_from :: "pyfloat \<Rightarrow> nat \<Rightarrow> nat \<Rightarrow> pyfloat list \<Rightarrow> nat" where
  "argmax_from mp max_ind i [] = max_ind"
| "argmax_from mp max_ind i (x # xs) =
     (if \<not> fl_le x mp then (if x = NaN then i else argmax_from x i (Suc i) xs)
      else argmax_from mp max_ind (Suc i) xs)"

definition np_argmax :: "pyfloat list \<Rightarrow> error + nat" where
  "np_argmax xs =
     (case xs of
        [] \<Rightarrow> Inl ValueError
      | x # rest \<Rightarrow> Inr (if x = NaN then 0 else argmax_from x 0 1 rest))"

fun write_rows :: "pyfloat list \<Rightarrow> nat list \<Rightarrow> pyfloat list \<Rightarrow> pyfloat list" where
  "write_rows col (r # rows) (p # preds) = write_rows (col[r := p]) rows preds"
| "write_rows col _ _ = col"

text \<open>
  \<^verbatim>\<open>__apply_best_model\<close>: the predictions of the selected estimator for the rows whose
  target is missing are written into \<^verbatim>\<open>imputed_df\<close> as the estimator returns them. The
  assignment raises unless there is one prediction per row.
\<close>

definition apply_best_model ::
  "'i env \<Rightarrow> 'i \<Rightarrow> impute_dataset \<Rightarrow> nat \<Rightarrow> miss_mixed \<Rightarrow> error + miss_mixed" where
  "apply_best_model env model impute_ds col_index s =
     (let y_pred_to_impute = predict env model (x_missing impute_ds)
      in if length y_pred_to_impute = length (y_missing_index impute_ds)
         then Inr (s\<lparr>imputed_df :=
                       (imputed_df s)[col_index :=
                          write_rows (imputed_df s ! col_index) (y_missing_index impute_ds)
                            y_pred_to_impute]\<rparr>)
         else Inl ValueError)"

text \<open>
  The selection of \<^verbatim>\<open>__process_each_column\<close>: the trials, then the index of the best
  validation score in the metric's direction.
\<close>

definition train_and_select ::
  "'i env \<Rightarrow> miss_mixed \<Rightarrow> 'i \<Rightarrow> train_dataset \<Rightarrow> error + ((pyfloat \<times> pyfloat) \<times> 'i \<times> 'i)" where
  "train_and_select env s imputer ds =
     (case metric s of
        None \<Rightarrow> Inl AttributeError
      | Some m \<Rightarrow>
          (case run_trials env m ds (nat (trials env imputer)) imputer of
             (metric_scores, models, imputer') \<Rightarrow>
               (case np_argmax (map (\<lambda>sc. fl_mul_int (snd sc) (metric_direction s))
                                  metric_scores) of
                  Inl e \<Rightarrow> Inl e
                | Inr best_index \<Rightarrow>
                    Inr (metric_scores ! best_index, models ! best_index, imputer'))))"

text \<open>
  \<^verbatim>\<open>__process_each_column\<close> returns whether the column was updated and its scores (the
  two lists \<^verbatim>\<open>column_score['train']\<close> and \<^verbatim>\<open>column_score['val']\<close>), with the new state
  and the estimator.
\<close>

definition process_each_column ::
  "'i env \<Rightarrow> miss_mixed \<Rightarrow> 'i \<Rightarrow> nat
    \<Rightarrow> error + (bool \<times> (pyfloat list \<times> pyfloat list) \<times> miss_mixed \<times> 'i)" where
  "process_each_column env s imputer col_index =
     (case dataset_preparation env s col_index of
        Inl e \<Rightarrow> Inl e
      | Inr (ds, impute_ds) \<Rightarrow>
          (if length (y_test ds) \<ge> 2 then
             (case train_and_select env s imputer ds of
                Inl e \<Rightarrow> Inl e
              | Inr (best_metric_score, best_model, imputer') \<Rightarrow>
                  (case can_impute s col_index (snd best_metric_score) of
                     Inl e \<Rightarrow> Inl e
                   | Inr (accept, s') \<Rightarrow>
                       (if accept then
                          (case apply_best_model env best_model impute_ds col_index s' of
                             Inl e \<Rightarrow> Inl e
                           | Inr s'' \<Rightarrow>
                               Inr (True,
                                    ([fst best_metric_score], [snd best_metric_score]),
                                    s'', imputer'))
                        else Inr (False,
                                  ([fst best_metric_score], [snd best_metric_score]),
                                  s', imputer'))))
           else Inr (False, ([], []), s, imputer)))"

subsection \<open>One stage\<close>

definition set_metric :: "miss_mixed \<Rightarrow> miss_mixed" where
  "set_metric s =
     s\<lparr>metric := Some (if sd_is_categorical (shared s) = Some True
                       then categorical_metric s else non_categorical_metric s)\<rparr>"

text \<open>
  The first statements of the loop body of \<^verbatim>\<open>__process_each_imputer\<close>: the index and the
  flag of the column are stored in the shared data, and the metric is chosen.
\<close>

definition select_column :: "miss_mixed \<Rightarrow> nat \<Rightarrow> bool \<Rightarrow> miss_mixed" where
  "select_column s col_idx is_categorical =
     set_metric
       (s\<lparr>shared := (shared s)\<lparr>sd_processing_col_idx := Some col_idx,
                                sd_is_categorical := Some is_categorical\<rparr>\<rparr>)"

text \<open>
  The body of the loop of \<^verbatim>\<open>__process_each_imputer\<close> for one column index. The test for
  missing values reads the column of \<^verbatim>\<open>raw_data\<close> at the position \<^verbatim>\<open>col_idx\<close>, and the
  score it passes to \<^verbatim>\<open>__can_impute\<close> is \<^verbatim>\<open>1 if self.metric_direction else 0\<close>.
\<close>

definition process_column_step ::
  "'i env \<Rightarrow> nat \<Rightarrow> miss_mixed \<times> 'i \<times> nat \<Rightarrow> error + (miss_mixed \<times> 'i \<times> nat)" where
  "process_column_step env col_idx st =
     (case st of (s, imputer, updated_column_count) \<Rightarrow>
        (if col_idx < length (categorical_columns s) then
           (let is_categorical = categorical_columns s ! col_idx;
                s1 = select_column s col_idx is_categorical;
                imputer1 = set_model env is_categorical imputer
            in if \<not> has_model env imputer1 then Inr (s1, imputer1, updated_column_count)
               else if col_idx < length (raw_data s1) then
                 (if \<not> list_ex (\<lambda>v. \<not> notna v) (snd (raw_data s1 ! col_idx)) then
                    (case can_impute s1 col_idx
                            (if metric_direction s1 \<noteq> 0 then Fin 1 else Fin 0) of
                       Inl e \<Rightarrow> Inl e
                     | Inr (_, s2) \<Rightarrow> Inr (s2, imputer1, updated_column_count))
                  else
                    (case process_each_column env s1 imputer1 col_idx of
                       Inl e \<Rightarrow> Inl e
                     | Inr (is_column_updated, _, s2, imputer2) \<Rightarrow>
                         Inr (s2, imputer2,
                              if is_column_updated then updated_column_count + 1
                              else updated_column_count)))
               else Inl IndexError)
         else Inl IndexError))"

fun columns_loop ::
  "'i env \<Rightarrow> nat list \<Rightarrow> miss_mixed \<times> 'i \<times> nat \<Rightarrow> error + (miss_mixed \<times> 'i \<times> nat)" where
  "columns_loop env [] st = Inr st"
| "columns_loop env (col_idx # rest) st =
     (case process_column_step env col_idx st of
        Inl e \<Rightarrow> Inl e
      | Inr st' \<Rightarrow> columns_loop env rest st')"

definition process_each_imputer ::
  "'i env \<Rightarrow> miss_mixed \<Rightarrow> 'i \<Rightarrow> error + (nat \<times> miss_mixed \<times> 'i)" where
  "process_each_imputer env s imputer =
     (case columns_loop env [0..<num_of_columns s] (s, imputer, 0) of
        Inl e \<Rightarrow> Inl e
      | Inr (s', imputer', updated_column_count) \<Rightarrow> Inr (updated_column_count, s', imputer'))"

subsection \<open>The stage sequence\<close>

text \<open>\<^verbatim>\<open>xs[i:]\<close> for a Python int \<open>i\<close>.\<close>

definition slice_from :: "'a list \<Rightarrow> int \<Rightarrow> 'a list" where
  "slice_from xs i =
     (if i < 0 then drop (nat (int (length xs) + i)) xs else drop (nat i) xs)"

text \<open>
  The loop of \<^verbatim>\<open>__check_early_stopping\<close> over the last update counts; the quotient
  \<^verbatim>\<open>updated_columns / self.num_of_columns\<close> of two Python ints raises on a zero divisor.
\<close>

fun all_within_tolerance :: "nat \<Rightarrow> rat \<Rightarrow> nat list \<Rightarrow> error + bool" where
  "all_within_tolerance n tol [] = Inr True"
| "all_within_tolerance n tol (updated_columns # rest) =
     (if n = 0 then Inl ZeroDivisionError
      else if of_nat updated_columns / of_nat n > tol then Inr False
      else all_within_tolerance n tol rest)"

definition check_early_stopping :: "miss_mixed \<Rightarrow> nat list \<Rightarrow> error + bool" where
  "check_early_stopping s updated_columns_count =
     (if early_stopping s then
        (if int (length updated_columns_count) \<ge> iter_per_stopping s then
           all_within_tolerance (num_of_columns s) (tolerance_percentage s)
             (slice_from updated_columns_count (- 1 * iter_per_stopping s))
         else Inr False)
      else Inr False)"

text \<open>
  \<^verbatim>\<open>fit_transform\<close>: the loop over the stages. The result of \<^verbatim>\<open>__check_early_stopping\<close>
  decides only whether the message is printed; the loop has no \<^verbatim>\<open>break\<close>. The model
  returns the final state, the estimators as the stages left them, the update count of
  every stage that ran, and for every stage whether the message was printed.
\<close>

fun stages_loop ::
  "'i env \<Rightarrow> 'i list \<Rightarrow> miss_mixed \<times> 'i list \<times> nat list \<times> bool list
    \<Rightarrow> error + (miss_mixed \<times> 'i list \<times> nat list \<times> bool list)" where
  "stages_loop env [] st = Inr st"
| "stages_loop env (imputer # rest) (s, done, updated_columns_count, printed) =
     (case process_each_imputer env s imputer of
        Inl e \<Rightarrow> Inl e
      | Inr (count, s', imputer') \<Rightarrow>
          (case check_early_stopping s' (updated_columns_count @ [count]) of
             Inl e \<Rightarrow> Inl e
           | Inr hit \<Rightarrow>
               stages_loop env rest
                 (s', done @ [imputer'], updated_columns_count @ [count], printed @ [hit])))"

definition fit_transform ::
  "'i env \<Rightarrow> miss_mixed \<Rightarrow> 'i list \<Rightarrow> error + (miss_mixed \<times> 'i list \<times> nat list \<times> bool list)" where
  "fit_transform env s imputers = stages_loop env imputers (s, [], [], [])"

subsection \<open>The result\<close>

text \<open>\<^verbatim>\<open>astype('int64')\<close> truncates towards zero and raises on NaN and the infinities.\<close>

fun astype_int64 :: "pyfloat list \<Rightarrow> error + int list" where
  "astype_int64 [] = Inr []"
| "astype_int64 (Fin q # xs) =
     (case astype_int64 xs of
        Inl e \<Rightarrow> Inl e
      | Inr ks \<Rightarrow> Inr ((if q \<ge> 0 then \<lfloor>q\<rfloor> else \<lceil>q\<rceil>) # ks))"
| "astype_int64 (_ # xs) = Inl ValueError"

definition decode_column :: "miss_mixed \<Rightarrow> nat \<Rightarrow> error + cell list" where
  "decode_column s i =
     (case map_of (column_to_encoder s) i of
        None \<Rightarrow> Inl KeyError
      | Some classes \<Rightarrow>
          (if i < length (imputed_df s) then
             (case astype_int64 (imputed_df s ! i) of
                Inl e \<Rightarrow> Inl e
              | Inr codes \<Rightarrow> label_encoder_inverse_transform classes codes)
           else Inl IndexError))"

fun result_loop :: "miss_mixed \<Rightarrow> nat list \<Rightarrow> cell list list \<Rightarrow> error + cell list list" where
  "result_loop s [] out = Inr out"
| "result_loop s (i # rest) out =
     (if i < length (categorical_columns s) then
        (if categorical_columns s ! i then
           (case decode_column s i of
              Inl e \<Rightarrow> Inl e
            | Inr col \<Rightarrow> result_loop s rest (out[i := col]))
         else result_loop s rest out)
      else Inl IndexError)"

text \<open>
  \<^verbatim>\<open>result\<close>: the imputed table with its categorical columns decoded, and the score
  board.
\<close>

definition result :: "miss_mixed \<Rightarrow> error + (cell list list \<times> pyfloat list)" where
  "result s =
     (case result_loop s [0..<num_of_columns s] (map (map Num) (imputed_df s)) of
        Inl e \<Rightarrow> Inl e
      | Inr out \<Rightarrow> Inr (out, max_metric_tests s))"

subsection \<open>How the score board evolves\<close>

text \<open>
  The only writes to \<^verbatim>\<open>max_metric_tests\<close> are those of \<^verbatim>\<open>__can_impute\<close>: \<open>board_steps d b b'\<close>
  holds when \<open>b'\<close> comes from \<open>b\<close> by a sequence of accepted candidates for the direction
  \<open>d\<close>. \<open>run_rel\<close> relates two states of one run.
\<close>

inductive board_steps :: "int \<Rightarrow> pyfloat list \<Rightarrow> pyfloat list \<Rightarrow> bool" for d :: int where
  board_refl: "board_steps d b b"
| board_accept:
    "board_steps d b b' \<Longrightarrow> c < length b' \<Longrightarrow>
     fl_less (fl_mul_int (b' ! c) d) (fl_mul_int x d) \<Longrightarrow> board_steps d b (b'[c := x])"

definition run_rel :: "miss_mixed \<Rightarrow> miss_mixed \<Rightarrow> bool" where
  "run_rel s s' =
     (metric_direction s' = metric_direction s \<and> num_of_columns s' = num_of_columns s \<and>
      board_steps (metric_direction s) (max_metric_tests s) (max_metric_tests s'))"

text \<open>
  What a run leaves alone: \<open>data_rel s s'\<close> holds when \<open>s'\<close> has the tables, flags and
  encoders of \<open>s\<close> and an imputed table of the same shape that agrees with that of \<open>s\<close>
  wherever the working table has an observed cell.
\<close>

definition data_rel :: "miss_mixed \<Rightarrow> miss_mixed \<Rightarrow> bool" where
  "data_rel s s' =
     (raw_data s' = raw_data s \<and> working_data s' = working_data s \<and>
      categorical_columns s' = categorical_columns s \<and>
      column_to_encoder s' = column_to_encoder s \<and>
      num_of_columns s' = num_of_columns s \<and>
      length (imputed_df s') = length (imputed_df s) \<and>
      (\<forall>c < length (imputed_df s).
         length (imputed_df s' ! c) = length (imputed_df s ! c) \<and>
         (\<forall>r < length (snd (working_data s ! c)).
            notna (snd (working_data s ! c) ! r) \<longrightarrow>
              imputed_df s' ! c ! r = imputed_df s ! c ! r)))"

text \<open>
  The order of scores as the spec words it: a candidate is strictly better when it is
  greater (maximize) or smaller (minimize) than the stored score; a score has not
  regressed when it is unchanged or strictly better.
\<close>

definition strictly_better :: "bool \<Rightarrow> pyfloat \<Rightarrow> pyfloat \<Rightarrow> bool" where
  "strictly_better maximize stored candidate =
     (if maximize then fl_less stored candidate else fl_less candidate stored)"

definition never_worse :: "bool \<Rightarrow> pyfloat \<Rightarrow> pyfloat \<Rightarrow> bool" where
  "never_worse maximize old new = (new = old \<or> strictly_better maximize old new)"

subsection \<open>A concrete instance of the collaborators\<close>

text \<open>
  The instance used to run the model: an estimator that predicts one constant for every
  row and records the targets it was fitted on, a split that keeps the first rows for
  training, and the scores computed exactly.
\<close>

record const_imputer =
  const_value :: pyfloat
  n_trials :: int
  for_categorical :: bool
  for_numerical :: bool
  selected :: bool
  fitted_on :: "cell list list"

fun fin_sum :: "pyfloat list \<Rightarrow> rat option" where
  "fin_sum [] = Some 0"
| "fin_sum (Fin q # xs) = (case fin_sum xs of None \<Rightarrow> None | Some t \<Rightarrow> Some (q + t))"
| "fin_sum (_ # xs) = None"

definition mean_of :: "pyfloat list \<Rightarrow> pyfloat" where
  "mean_of xs =
     (case fin_sum xs of
        None \<Rightarrow> NaN
      | Some t \<Rightarrow> if xs = [] then NaN else Fin (t / of_nat (length xs)))"

definition ex_fill_statistic :: "string \<Rightarrow> pyfloat list \<Rightarrow> error + pyfloat" where
  "ex_fill_statistic strategy xs =
     (if strategy = ''mean'' then Inr (mean_of xs)
      else if strategy = ''constant'' then Inr (Fin 0)
      else Inl ValueError)"

definition ex_split ::
  "pyfloat list list \<Rightarrow> cell list \<Rightarrow> rat
    \<Rightarrow> pyfloat list list \<times> cell list \<times> pyfloat list list \<times> cell list" where
  "ex_split x y ts =
     (let k = nat \<lfloor>of_nat (length y) * ts\<rfloor>
      in (take k x, take k y, drop k x, drop k y))"

definition squared_errors :: "cell list \<Rightarrow> pyfloat list \<Rightarrow> pyfloat list" where
  "squared_errors y_true y_pred =
     map (\<lambda>(y, p). fl_mul (fl_sub (cell_float y) p) (fl_sub (cell_float y) p))
       (zip y_true y_pred)"

definition ex_mse :: "cell list \<Rightarrow> pyfloat list \<Rightarrow> pyfloat" where
  "ex_mse y_true y_pred = mean_of (squared_errors y_true y_pred)"

definition ex_accuracy :: "cell list \<Rightarrow> pyfloat list \<Rightarrow> pyfloat" where
  "ex_accuracy y_true y_pred =
     mean_of (map (\<lambda>(y, p). if y = Num p then Fin 1 else Fin 0) (zip y_true y_pred))"

definition ex_r2 :: "cell list \<Rightarrow> pyfloat list \<Rightarrow> pyfloat" where
  "ex_r2 y_true y_pred =
     (let mu = mean_of (map cell_float y_true)
      in case (fin_sum (squared_errors y_true y_pred),
               fin_sum (squared_errors y_true (map (\<lambda>_. mu) y_true))) of
           (Some res, Some tot) \<Rightarrow>
             (if length y_true < 2 then NaN
              else if tot = 0 then (if res = 0 then Fin 1 else Fin 0)
              else Fin (1 - res / tot))
         | _ \<Rightarrow> NaN)"

definition ex_metric_eval :: "metric_fn \<Rightarrow> cell list \<Rightarrow> pyfloat list \<Rightarrow> pyfloat" where
  "ex_metric_eval m y_true y_pred =
     (case m of
        R2_score \<Rightarrow> ex_r2 y_true y_pred
      | Accuracy_score \<Rightarrow> ex_accuracy y_true y_pred
      | Mean_squared_error \<Rightarrow> ex_mse y_true y_pred)"

definition ex_env :: "const_imputer env" where
  "ex_env =
     \<lparr>fill_statistic = ex_fill_statistic,
      train_test_split = ex_split,
      metric_eval = ex_metric_eval,
      set_model =
        (\<lambda>is_categorical i.
           i\<lparr>selected := (if is_categorical then for_categorical i else for_numerical i)\<rparr>),
      has_model = selected,
      trials = n_trials,
      fit = (\<lambda>x y i. i\<lparr>fitted_on := fitted_on i @ [y]\<rparr>),
      predict = (\<lambda>i x. replicate (length x) (const_value i))\<rparr>"

definition ex_imputer :: "rat \<Rightarrow> const_imputer" where
  "ex_imputer q =
     \<lparr>const_value = Fin q, n_trials = 1, for_categorical = True, for_numerical = True,
      selected = False, fitted_on = []\<rparr>"

definition nums :: "rat list \<Rightarrow> cell list" where
  "nums qs = map (\<lambda>q. Num (Fin q)) qs"

text \<open>Two numerical columns of six rows; the second has one missing cell.\<close>

definition ex_raw :: frame where
  "ex_raw =
     [(0, nums [1, 2, 3, 4, 5, 6]),
      (1, [Num (Fin 2), Num (Fin 4), Num NaN, Num (Fin 8), Num (Fin 10), Num (Fin 12)])]"

text \<open>
  The object that \<^verbatim>\<open>MissMixed(ex_raw, ..., [False, False], metric, 'mean', 0.5, es, 1, 0.1)\<close>
  constructs, for the direction and the scoring function of \<open>metric\<close>.
\<close>

definition ex_state :: "int \<Rightarrow> metric_fn \<Rightarrow> metric_fn \<Rightarrow> bool \<Rightarrow> miss_mixed" where
  "ex_state d ncm cm es =
     \<lparr>raw_data = ex_raw, working_data = ex_raw, categorical_columns = [False, False],
      train_size = 1 / 2, early_stopping = es, iter_per_stopping = 1,
      tolerance_percentage = 1 / 10,
      shared = \<lparr>sd_categorical_columns = Some [False, False],
                sd_category_counts = Some [1, 1], sd_processing_col_idx = None,
                sd_is_categorical = None\<rparr>,
      column_to_encoder = [], num_of_columns = 2,
      imputed_df = [[Fin 1, Fin 2, Fin 3, Fin 4, Fin 5, Fin 6],
                    [Fin 2, Fin 4, Fin (36 / 5), Fin 8, Fin 10, Fin 12]],
      metric_direction = d, non_categorical_metric = ncm, categorical_metric = cm,
      max_metric_tests = [fl_mul_int NInf d, fl_mul_int NInf d], metric = None\<rparr>"

text \<open>The two constructed objects: minimizing the mean squared error, and maximizing.\<close>

definition ex_mse_state :: "bool \<Rightarrow> miss_mixed" where
  "ex_mse_state es = ex_state (- 1) Mean_squared_error Mean_squared_error es"

definition ex_r2_state :: "bool \<Rightarrow> miss_mixed" where
  "ex_r2_state es = ex_state 1 R2_score Accuracy_score es"

text \<open>The state after stages on \<open>ex_raw\<close> that left \<open>v\<close> in the missing cell and \<open>board\<close> as scores.\<close>

definition ex_after :: "miss_mixed \<Rightarrow> rat \<Rightarrow> pyfloat list \<Rightarrow> miss_mixed" where
  "ex_after s v board =
     s\<lparr>shared := (shared s)\<lparr>sd_processing_col_idx := Some 1,
                              sd_is_categorical := Some False\<rparr>,
       imputed_df := [[Fin 1, Fin 2, Fin 3, Fin 4, Fin 5, Fin 6],
                      [Fin 2, Fin 4, Fin v, Fin 8, Fin 10, Fin 12]],
       max_metric_tests := board,
       metric := Some (non_categorical_metric s)\<rparr>"

definition ex_fitted :: "rat \<Rightarrow> const_imputer" where
  "ex_fitted q = (ex_imputer q)\<lparr>selected := True, fitted_on := [[Num (Fin 2), Num (Fin 4)]]\<rparr>"

text \<open>The data sets that \<^verbatim>\<open>__dataset_preparation\<close> builds for the second column of \<open>ex_raw\<close>.\<close>

definition ex_ds :: train_dataset where
  "ex_ds = \<lparr>x_train = [[Fin 0], [Fin 2]], y_train = nums [2, 4],
            x_test = [[Fin 6], [Fin 8], [Fin 10]], y_test = nums [8, 10, 12]\<rparr>"

definition ex_impute_ds :: impute_dataset where
  "ex_impute_ds = \<lparr>x_missing = [[Fin 4]], y_missing_index = [2]\<rparr>"

text \<open>The same collaborators with a scoring function that returns NaN.\<close>

definition nan_env :: "const_imputer env" where
  "nan_env = ex_env\<lparr>metric_eval := (\<lambda>m y_true y_pred. NaN)\<rparr>"

text \<open>Further tables: columns without any observed value, and a categorical column.\<close>

definition nan_column :: "nat \<Rightarrow> cell list" where
  "nan_column n = replicate n (Num NaN)"

text \<open>The last two of three columns are empty.\<close>

definition raw_two_empty :: frame where
  "raw_two_empty = [(0, nums [1, 2, 3, 4, 5, 6]), (1, nan_column 6), (2, nan_column 6)]"

text \<open>The first two of four columns are empty; the third is categorical.\<close>

definition raw_front_empty :: frame where
  "raw_front_empty =
     [(0, nan_column 6), (1, nan_column 6),
      (2, [Str ''b'', Str ''a'', Str ''b'', Str ''a'', Num NaN, Str ''a'']),
      (3, nums [1, 2, 3, 4, 5, 6])]"

text \<open>The columns of \<open>ex_raw\<close> behind an empty column.\<close>

definition raw_shifted :: frame where
  "raw_shifted = (0, nan_column 6) # map (\<lambda>c. (fst c + 1, snd c)) ex_raw"

definition shifted_state :: miss_mixed where
  "shifted_state =
     (ex_mse_state False)\<lparr>raw_data := raw_shifted, working_data := tl raw_shifted\<rparr>"

text \<open>A numerical column with a missing cell, a categorical column and a numerical one.\<close>

definition raw_mixed :: frame where
  "raw_mixed =
     [(0, [Num (Fin 1), Num NaN, Num (Fin 3), Num (Fin 4), Num (Fin 5), Num (Fin 6)]),
      (1, [Str ''a'', Str ''b'', Str ''c'', Str ''b'', Str ''a'', Str ''c'']),
      (2, nums [10, 20, 30, 40, 50, 60])]"

definition mixed_state :: miss_mixed where
  "mixed_state =
     \<lparr>raw_data = raw_mixed,
      working_data = [raw_mixed ! 0, (1, nums [0, 1, 2, 1, 0, 2]), raw_mixed ! 2],
      categorical_columns = [False, True, False],
      train_size = 1 / 2, early_stopping = False, iter_per_stopping = 1,
      tolerance_percentage = 1 / 10,
      shared = \<lparr>sd_categorical_columns = Some [False, True, False],
                sd_category_counts = Some [1, 3, 1], sd_processing_col_idx = None,
                sd_is_categorical = None\<rparr>,
      column_to_encoder = [(1, [Str ''a'', Str ''b'', Str ''c''])], num_of_columns = 3,
      imputed_df = [[Fin 1, Fin (19 / 5), Fin 3, Fin 4, Fin 5, Fin 6],
                    [Fin 0, Fin 1, Fin 2, Fin 1, Fin 0, Fin 2],
                    [Fin 10, Fin 20, Fin 30, Fin 40, Fin 50, Fin 60]],
      metric_direction = - 1, non_categorical_metric = Mean_squared_error,
      categorical_metric = Mean_squared_error,
      max_metric_tests = [PInf, PInf, PInf], metric = None\<rparr>"

text \<open>The state of \<open>mixed_state\<close> after one stage with the estimator that predicts 2.\<close>

definition mixed_after :: miss_mixed where
  "mixed_after =
     mixed_state
       \<lparr>shared := (shared mixed_state)\<lparr>sd_processing_col_idx := Some 2,
                                        sd_is_categorical := Some False\<rparr>,
        imputed_df := [[Fin 1, Fin 2, Fin 3, Fin 4, Fin 5, Fin 6],
                       [Fin 0, Fin 1, Fin 2, Fin 1, Fin 0, Fin 2],
                       [Fin 10, Fin 20, Fin 30, Fin 40, Fin 50, Fin 60]],
        max_metric_tests := [Fin (29 / 3), Fin 1, Fin 1],
        metric := Some Mean_squared_error\<rparr>"

text \<open>One column that mixes strings and numbers.\<close>

definition raw_mixed_types :: frame where
  "raw_mixed_types = [(0, [Str ''a'', Num (Fin 1), Str ''b'', Num (Fin 2)])]"

section \<open>Properties\<close>

subsection \<open>Every step of a run is a sequence of accepted candidates\<close>

lemma board_steps_trans:
  "board_steps d b1 b2 \<Longrightarrow> board_steps d b0 b1 \<Longrightarrow> board_steps d b0 b2"
  by (induction rule: board_steps.induct) (auto intro: board_steps.intros)

lemma run_rel_refl: "run_rel s s"
  by (simp add: run_rel_def board_refl)

lemma run_rel_trans: "run_rel s0 s1 \<Longrightarrow> run_rel s1 s2 \<Longrightarrow> run_rel s0 s2"
  by (auto simp: run_rel_def intro: board_steps_trans)

lemma can_impute_run_rel:
  "can_impute s c x = Inr (b, s') \<Longrightarrow> run_rel s s'"
  by (auto simp: can_impute_def run_rel_def Let_def split: if_splits
      intro: board_refl board_accept[OF board_refl])

lemma apply_best_model_run_rel:
  "apply_best_model env m ids c s = Inr s' \<Longrightarrow> run_rel s s'"
  by (auto simp: apply_best_model_def run_rel_def Let_def split: if_splits
      intro: board_steps.intros)

lemma process_each_column_run_rel:
  "process_each_column env s imp c = Inr (u, sc, s', imp') \<Longrightarrow> run_rel s s'"
  by (auto simp: process_each_column_def split: sum.splits if_splits prod.splits
      intro: run_rel_refl run_rel_trans can_impute_run_rel apply_best_model_run_rel)

lemma select_column_run_rel: "run_rel s (select_column s c b)"
  by (simp add: run_rel_def select_column_def set_metric_def board_refl)

lemma process_column_step_run_rel:
  assumes "process_column_step env c (s, imp, n) = Inr (s', imp', n')"
  shows "run_rel s s'"
proof -
  have "s' = select_column s c (categorical_columns s ! c) \<or>
        run_rel (select_column s c (categorical_columns s ! c)) s'"
    using assms
    by (auto simp: process_column_step_def Let_def
        split: sum.splits if_splits prod.splits
        dest: can_impute_run_rel process_each_column_run_rel)
  then show ?thesis
    using select_column_run_rel[of s c "categorical_columns s ! c"]
    by (auto intro: run_rel_trans)
qed

lemma columns_loop_run_rel:
  "columns_loop env cs (s, imp, n) = Inr (s', imp', n') \<Longrightarrow> run_rel s s'"
proof (induction cs arbitrary: s imp n)
  case Nil
  then show ?case by (simp add: run_rel_refl)
next
  case (Cons c cs)
  then show ?case
    by (auto split: sum.splits intro: run_rel_trans dest: process_column_step_run_rel)
qed

lemma process_each_imputer_run_rel:
  "process_each_imputer env s imp = Inr (n, s', imp') \<Longrightarrow> run_rel s s'"
  by (auto simp: process_each_imputer_def split: sum.splits dest: columns_loop_run_rel)

lemma stages_loop_run_rel:
  "stages_loop env imps (s, dn, cnts, pr) = Inr (s', dn', cnts', pr') \<Longrightarrow> run_rel s s'"
proof (induction imps arbitrary: s dn cnts pr)
  case Nil
  then show ?case by (simp add: run_rel_refl)
next
  case (Cons i imps)
  then show ?case
    by (auto split: sum.splits intro: run_rel_trans dest: process_each_imputer_run_rel)
qed

lemma fit_transform_run_rel:
  "fit_transform env s imps = Inr (s', dn, cnts, pr) \<Longrightarrow> run_rel s s'"
  by (auto simp: fit_transform_def dest: stages_loop_run_rel)


subsection \<open>The order of scores\<close>

lemma fl_less_trans: "fl_less a b \<Longrightarrow> fl_less b c \<Longrightarrow> fl_less a c"
  by (cases a; cases b; cases c) auto

lemma fl_less_mul_int_neg: "fl_less (fl_mul_int a (- 1)) (fl_mul_int b (- 1)) = fl_less b a"
  by (cases a; cases b) auto

lemma fl_mul_int_one: "fl_mul_int a 1 = a"
  by (cases a) auto

lemma strictly_better_iff:
  "d = 1 \<or> d = - 1 \<Longrightarrow>
   fl_less (fl_mul_int a d) (fl_mul_int b d) = strictly_better (d = 1) a b"
  by (auto simp: strictly_better_def fl_less_mul_int_neg fl_mul_int_one)

lemma board_steps_pointwise:
  "board_steps d b b' \<Longrightarrow>
   length b' = length b \<and>
   (\<forall>c < length b. b' ! c = b ! c \<or> fl_less (fl_mul_int (b ! c) d) (fl_mul_int (b' ! c) d))"
proof (induction rule: board_steps.induct)
  case (board_refl b)
  then show ?case by simp
next
  case (board_accept b b' c x)
  show ?case
  proof (intro conjI allI impI)
    show "length (b'[c := x]) = length b" using board_accept.IH by simp
  next
    fix k assume k: "k < length b"
    show "b'[c := x] ! k = b ! k \<or>
          fl_less (fl_mul_int (b ! k) d) (fl_mul_int (b'[c := x] ! k) d)"
    proof (cases "k = c")
      case True
      have "b' ! c = b ! c \<or> fl_less (fl_mul_int (b ! c) d) (fl_mul_int (b' ! c) d)"
        using board_accept.IH k True by simp
      then have "fl_less (fl_mul_int (b ! c) d) (fl_mul_int x d)"
        using board_accept.hyps(3) by (auto intro: fl_less_trans)
      then show ?thesis using True board_accept.hyps(2) by simp
    next
      case False
      then show ?thesis using board_accept.IH k by simp
    qed
  qed
qed

lemma board_steps_no_nan:
  "board_steps d b b' \<Longrightarrow> list_all (\<lambda>x. x \<noteq> NaN) b \<Longrightarrow> list_all (\<lambda>x. x \<noteq> NaN) b'"
proof (induction rule: board_steps.induct)
  case (board_refl b)
  then show ?case by simp
next
  case (board_accept b b' c x)
  have "x \<noteq> NaN" using board_accept.hyps(3) by (cases "fl_mul_int (b' ! c) d"; auto)
  then show ?case using board_accept
    by (auto simp: list_all_iff dest!: set_update_subset_insert[THEN subsetD])
qed


lemma fl_less_NaN_right: "fl_less x NaN = False"
  by (cases x) auto

lemma can_impute_NaN:
  "c < length (max_metric_tests s) \<Longrightarrow> can_impute s c NaN = Inr (False, s)"
  by (simp add: can_impute_def fl_less_NaN_right)

lemma init_metrics_board:
  "init_metrics m n = Inr (d, ncm, cm, board) \<Longrightarrow>
   (d = 1 \<or> d = - 1) \<and> (d = 1) = (m = ''r2_accuracy'') \<and>
   board = replicate n (if d = 1 then NInf else PInf)"
  by (auto simp: init_metrics_def Let_def split: if_splits)

lemma can_impute_better:
  assumes "metric_direction s = 1 \<or> metric_direction s = - 1"
    and "c < length (max_metric_tests s)"
  shows "can_impute s c x =
     Inr (strictly_better (metric_direction s = 1) (max_metric_tests s ! c) x,
          if strictly_better (metric_direction s = 1) (max_metric_tests s ! c) x
          then s\<lparr>max_metric_tests := (max_metric_tests s)[c := x]\<rparr> else s)"
  using assms(2) by (simp add: can_impute_def Let_def strictly_better_iff[OF assms(1)])

lemma run_rel_never_worse:
  assumes "run_rel s s'" and "metric_direction s = 1 \<or> metric_direction s = - 1"
  shows "length (max_metric_tests s') = length (max_metric_tests s) \<and>
     (\<forall>c < length (max_metric_tests s).
        never_worse (metric_direction s = 1) (max_metric_tests s ! c) (max_metric_tests s' ! c))"
  using board_steps_pointwise[of "metric_direction s" "max_metric_tests s" "max_metric_tests s'"]
    assms
  by (auto simp: run_rel_def never_worse_def strictly_better_iff)

subsection \<open>C7: the score board is monotone\<close>

text \<open>
  Claim C7. The score board starts at the worst score of the direction (\<open>NInf\<close> when
  maximizing, \<open>PInf\<close> when minimizing); \<^verbatim>\<open>__can_impute\<close> returns true exactly when the
  candidate is strictly better than the stored score in that direction, and then stores
  the candidate; hence after a stage, and after a whole run of \<^verbatim>\<open>fit_transform\<close>, the
  score of every column is unchanged or strictly better than before.
\<close>

theorem score_board_monotone:
  "(init_metrics m n = Inr (d, ncm, cm, board) \<longrightarrow>
      (d = 1 \<or> d = - 1) \<and> (d = 1) = (m = ''r2_accuracy'') \<and>
      board = replicate n (if d = 1 then NInf else PInf)) \<and>
   ((metric_direction s = 1 \<or> metric_direction s = - 1) \<and> c < length (max_metric_tests s) \<longrightarrow>
      can_impute s c x =
        Inr (strictly_better (metric_direction s = 1) (max_metric_tests s ! c) x,
             if strictly_better (metric_direction s = 1) (max_metric_tests s ! c) x
             then s\<lparr>max_metric_tests := (max_metric_tests s)[c := x]\<rparr> else s)) \<and>
   ((metric_direction s = 1 \<or> metric_direction s = - 1) \<and>
    process_each_imputer env s imputer = Inr (count, s_stage, imputer_stage) \<longrightarrow>
      length (max_metric_tests s_stage) = length (max_metric_tests s) \<and>
      (\<forall>k < length (max_metric_tests s).
         never_worse (metric_direction s = 1) (max_metric_tests s ! k) (max_metric_tests s_stage ! k))) \<and>
   ((metric_direction s = 1 \<or> metric_direction s = - 1) \<and>
    fit_transform env s imputers = Inr (s', out) \<longrightarrow>
      length (max_metric_tests s') = length (max_metric_tests s) \<and>
      (\<forall>k < length (max_metric_tests s).
         never_worse (metric_direction s = 1) (max_metric_tests s ! k) (max_metric_tests s' ! k)))"
proof -
  have p1: "init_metrics m n = Inr (d, ncm, cm, board) \<longrightarrow>
      (d = 1 \<or> d = - 1) \<and> (d = 1) = (m = ''r2_accuracy'') \<and>
      board = replicate n (if d = 1 then NInf else PInf)"
    by (rule impI) (rule init_metrics_board)
  have p2: "(metric_direction s = 1 \<or> metric_direction s = - 1) \<and>
      c < length (max_metric_tests s) \<longrightarrow>
      can_impute s c x =
        Inr (strictly_better (metric_direction s = 1) (max_metric_tests s ! c) x,
             if strictly_better (metric_direction s = 1) (max_metric_tests s ! c) x
             then s\<lparr>max_metric_tests := (max_metric_tests s)[c := x]\<rparr> else s)"
    by (rule impI, elim conjE) (rule can_impute_better)
  have p3: "(metric_direction s = 1 \<or> metric_direction s = - 1) \<and>
      process_each_imputer env s imputer = Inr (count, s_stage, imputer_stage) \<longrightarrow>
      length (max_metric_tests s_stage) = length (max_metric_tests s) \<and>
      (\<forall>k < length (max_metric_tests s).
         never_worse (metric_direction s = 1) (max_metric_tests s ! k)
           (max_metric_tests s_stage ! k))"
  proof (intro impI)
    assume a: "(metric_direction s = 1 \<or> metric_direction s = - 1) \<and>
      process_each_imputer env s imputer = Inr (count, s_stage, imputer_stage)"
    then have "run_rel s s_stage" by (auto dest: process_each_imputer_run_rel)
    from run_rel_never_worse[OF this] a show
      "length (max_metric_tests s_stage) = length (max_metric_tests s) \<and>
      (\<forall>k < length (max_metric_tests s).
         never_worse (metric_direction s = 1) (max_metric_tests s ! k)
           (max_metric_tests s_stage ! k))" by simp
  qed
  have p4: "(metric_direction s = 1 \<or> metric_direction s = - 1) \<and>
      fit_transform env s imputers = Inr (s', out) \<longrightarrow>
      length (max_metric_tests s') = length (max_metric_tests s) \<and>
      (\<forall>k < length (max_metric_tests s).
         never_worse (metric_direction s = 1) (max_metric_tests s ! k) (max_metric_tests s' ! k))"
  proof (cases out)
    case (fields dn cnts pr)
    show ?thesis
    proof (intro impI)
      assume a: "(metric_direction s = 1 \<or> metric_direction s = - 1) \<and>
        fit_transform env s imputers = Inr (s', out)"
      then have "run_rel s s'" unfolding fields by (auto dest: fit_transform_run_rel)
      from run_rel_never_worse[OF this] a show
        "length (max_metric_tests s') = length (max_metric_tests s) \<and>
        (\<forall>k < length (max_metric_tests s).
           never_worse (metric_direction s = 1) (max_metric_tests s ! k)
             (max_metric_tests s' ! k))" by simp
    qed
  qed
  show ?thesis by (rule conjI[OF p1 conjI[OF p2 conjI[OF p3 p4]]])
qed

lemma ex_r2_stage:
  "process_each_imputer ex_env (ex_r2_state False) (ex_imputer 5)
     = Inr (1, ex_after (ex_r2_state False) 5 [Fin 1, Fin (- (75 / 8))], ex_fitted 5)"
  by code_simp

lemma ex_r2_run:
  "fit_transform ex_env (ex_r2_state False) [ex_imputer 5, ex_imputer 7, ex_imputer 9]
     = Inr (ex_after (ex_r2_state False) 9 [Fin 1, Fin (- (3 / 8))],
            [ex_fitted 5, ex_fitted 7, ex_fitted 9], [1, 1, 1], [False, False, False])"
  by code_simp

theorem score_board_monotone_witness:
  "init_metrics ''mse'' 2 = Inr (- 1, Mean_squared_error, Mean_squared_error, [PInf, PInf]) \<and>
   can_impute (ex_r2_state False) 1 (Fin 3)
     = Inr (True, (ex_r2_state False)\<lparr>max_metric_tests := [NInf, Fin 3]\<rparr>) \<and>
   process_each_imputer ex_env (ex_r2_state False) (ex_imputer 5)
     = Inr (1, ex_after (ex_r2_state False) 5 [Fin 1, Fin (- (75 / 8))], ex_fitted 5) \<and>
   never_worse True NInf (Fin (- (75 / 8))) \<and>
   fit_transform ex_env (ex_r2_state False) [ex_imputer 5, ex_imputer 7, ex_imputer 9]
     = Inr (ex_after (ex_r2_state False) 9 [Fin 1, Fin (- (3 / 8))],
            [ex_fitted 5, ex_fitted 7, ex_fitted 9], [1, 1, 1], [False, False, False]) \<and>
   never_worse True NInf (Fin 1) \<and> never_worse True NInf (Fin (- (3 / 8)))"
proof -
  have h1: "init_metrics ''mse'' 2
      = Inr (- 1, Mean_squared_error, Mean_squared_error, [PInf, PInf])"
    by code_simp
  have d: "metric_direction (ex_r2_state False) = 1" by code_simp
  have b: "max_metric_tests (ex_r2_state False) = [NInf, NInf]" by code_simp
  have b1: "max_metric_tests (ex_after (ex_r2_state False) 5 [Fin 1, Fin (- (75 / 8))])
      = [Fin 1, Fin (- (75 / 8))]" by code_simp
  have b2: "max_metric_tests (ex_after (ex_r2_state False) 9 [Fin 1, Fin (- (3 / 8))])
      = [Fin 1, Fin (- (3 / 8))]" by code_simp
  have sb: "strictly_better True NInf (Fin 3)" by code_simp
  note t = score_board_monotone[where m = "''mse''" and n = 2 and d = "- 1"
      and ncm = Mean_squared_error and cm = Mean_squared_error and board = "[PInf, PInf]"
      and s = "ex_r2_state False" and c = 1 and x = "Fin 3" and env = ex_env
      and imputer = "ex_imputer 5" and count = 1
      and s_stage = "ex_after (ex_r2_state False) 5 [Fin 1, Fin (- (75 / 8))]"
      and imputer_stage = "ex_fitted 5"
      and imputers = "[ex_imputer 5, ex_imputer 7, ex_imputer 9]"
      and s' = "ex_after (ex_r2_state False) 9 [Fin 1, Fin (- (3 / 8))]"
      and out = "([ex_fitted 5, ex_fitted 7, ex_fitted 9], [1, 1, 1], [False, False, False])"]
  have t2: "can_impute (ex_r2_state False) 1 (Fin 3)
     = Inr (True, (ex_r2_state False)\<lparr>max_metric_tests := [NInf, Fin 3]\<rparr>)"
    using conjunct1[OF conjunct2[OF t]] d b sb by simp
  have t3a: "\<forall>k < length (max_metric_tests (ex_r2_state False)).
      never_worse (metric_direction (ex_r2_state False) = 1)
        (max_metric_tests (ex_r2_state False) ! k)
        (max_metric_tests (ex_after (ex_r2_state False) 5 [Fin 1, Fin (- (75 / 8))]) ! k)"
    using conjunct1[OF conjunct2[OF conjunct2[OF t]]] d ex_r2_stage by simp
  have t3: "never_worse True NInf (Fin (- (75 / 8)))"
    using t3a[rule_format, of 1] by (simp add: d b b1)
  have t4a: "\<forall>k < length (max_metric_tests (ex_r2_state False)).
      never_worse (metric_direction (ex_r2_state False) = 1)
        (max_metric_tests (ex_r2_state False) ! k)
        (max_metric_tests (ex_after (ex_r2_state False) 9 [Fin 1, Fin (- (3 / 8))]) ! k)"
    using conjunct2[OF conjunct2[OF conjunct2[OF t]]] d ex_r2_run by simp
  have t4: "never_worse True NInf (Fin 1) \<and> never_worse True NInf (Fin (- (3 / 8)))"
    using t4a[rule_format, of 0] t4a[rule_format, of 1] by (simp add: d b b2)
  show ?thesis
    by (intro conjI) (rule h1 t2 ex_r2_stage t3 ex_r2_run conjunct1[OF t4] conjunct2[OF t4])+
qed


subsection \<open>C10: a NaN score is never accepted\<close>

lemma process_each_column_NaN:
  assumes "dataset_preparation env s c = Inr (ds, ids)" and "2 \<le> length (y_test ds)"
    and "train_and_select env s imputer ds = Inr ((tr, NaN), model, imputer')"
    and "c < length (max_metric_tests s)"
  shows "process_each_column env s imputer c = Inr (False, ([tr], [NaN]), s, imputer')"
  using assms by (simp add: process_each_column_def can_impute_NaN)

lemma init_metrics_no_nan:
  "init_metrics m n = Inr (d, ncm, cm, board) \<Longrightarrow> list_all (\<lambda>x. x \<noteq> NaN) board"
  by (auto simp: init_metrics_def Let_def list_all_iff split: if_splits)

text \<open>
  Claim C10. \<^verbatim>\<open>__can_impute\<close> rejects a NaN candidate and leaves the state as it is; when
  the selected validation score of a column is NaN, \<^verbatim>\<open>__process_each_column\<close> reports no
  update and changes neither the data nor the score board; the initial score board holds
  no NaN, and a run of \<^verbatim>\<open>fit_transform\<close> from a score board without NaN ends with one.
\<close>

theorem nan_score_rejected:
  "(c < length (max_metric_tests s) \<longrightarrow> can_impute s c NaN = Inr (False, s)) \<and>
   (dataset_preparation env s c = Inr (ds, ids) \<and> 2 \<le> length (y_test ds) \<and>
    train_and_select env s imputer ds = Inr ((tr, NaN), model, imputer') \<and>
    c < length (max_metric_tests s) \<longrightarrow>
      process_each_column env s imputer c = Inr (False, ([tr], [NaN]), s, imputer')) \<and>
   (init_metrics m n = Inr (d, ncm, cm, board) \<longrightarrow> list_all (\<lambda>x. x \<noteq> NaN) board) \<and>
   (list_all (\<lambda>x. x \<noteq> NaN) (max_metric_tests s) \<and>
    fit_transform env s imputers = Inr (s', out) \<longrightarrow>
      list_all (\<lambda>x. x \<noteq> NaN) (max_metric_tests s'))"
proof -
  have p4: "list_all (\<lambda>x. x \<noteq> NaN) (max_metric_tests s) \<and>
    fit_transform env s imputers = Inr (s', out) \<longrightarrow>
      list_all (\<lambda>x. x \<noteq> NaN) (max_metric_tests s')"
  proof (cases out)
    case (fields dn cnts pr)
    show ?thesis
      unfolding fields
    proof (intro impI, elim conjE)
      assume a: "list_all (\<lambda>x. x \<noteq> NaN) (max_metric_tests s)"
        and r: "fit_transform env s imputers = Inr (s', dn, cnts, pr)"
      from fit_transform_run_rel[OF r]
      have "board_steps (metric_direction s) (max_metric_tests s) (max_metric_tests s')"
        by (simp add: run_rel_def)
      from board_steps_no_nan[OF this a]
      show "list_all (\<lambda>x. x \<noteq> NaN) (max_metric_tests s')" .
    qed
  qed
  have p1: "c < length (max_metric_tests s) \<longrightarrow> can_impute s c NaN = Inr (False, s)"
    by (rule impI) (rule can_impute_NaN)
  have p2: "dataset_preparation env s c = Inr (ds, ids) \<and> 2 \<le> length (y_test ds) \<and>
    train_and_select env s imputer ds = Inr ((tr, NaN), model, imputer') \<and>
    c < length (max_metric_tests s) \<longrightarrow>
      process_each_column env s imputer c = Inr (False, ([tr], [NaN]), s, imputer')"
    by (rule impI, elim conjE) (rule process_each_column_NaN)
  have p3: "init_metrics m n = Inr (d, ncm, cm, board) \<longrightarrow>
      list_all (\<lambda>x. x \<noteq> NaN) board"
    by (rule impI) (rule init_metrics_no_nan)
  show ?thesis by (rule conjI[OF p1 conjI[OF p2 conjI[OF p3 p4]]])
qed

lemma nan_prepared:
  "dataset_preparation nan_env (set_metric (ex_mse_state False)) 1 = Inr (ex_ds, ex_impute_ds)"
  by code_simp

lemma nan_selected:
  "train_and_select nan_env (set_metric (ex_mse_state False)) (ex_imputer 5) ex_ds
     = Inr ((NaN, NaN), (ex_imputer 5)\<lparr>fitted_on := [nums [2, 4]]\<rparr>,
            (ex_imputer 5)\<lparr>fitted_on := [nums [2, 4]]\<rparr>)"
  by code_simp

lemma nan_run:
  "fit_transform nan_env (ex_mse_state False) [ex_imputer 5]
     = Inr (ex_after (ex_mse_state False) (36 / 5) [Fin 1, PInf],
            [ex_fitted 5], [0], [False])"
  by code_simp

theorem nan_score_rejected_witness:
  "can_impute (set_metric (ex_mse_state False)) 1 NaN
     = Inr (False, set_metric (ex_mse_state False)) \<and>
   process_each_column nan_env (set_metric (ex_mse_state False)) (ex_imputer 5) 1
     = Inr (False, ([NaN], [NaN]), set_metric (ex_mse_state False),
            (ex_imputer 5)\<lparr>fitted_on := [nums [2, 4]]\<rparr>) \<and>
   init_metrics ''mse'' 2 = Inr (- 1, Mean_squared_error, Mean_squared_error, [PInf, PInf]) \<and>
   fit_transform nan_env (ex_mse_state False) [ex_imputer 5]
     = Inr (ex_after (ex_mse_state False) (36 / 5) [Fin 1, PInf],
            [ex_fitted 5], [0], [False]) \<and>
   list_all (\<lambda>x. x \<noteq> NaN)
     (max_metric_tests (ex_after (ex_mse_state False) (36 / 5) [Fin 1, PInf]))"
proof -
  have len: "1 < length (max_metric_tests (set_metric (ex_mse_state False)))" by code_simp
  have yt: "2 \<le> length (y_test ex_ds)" by code_simp
  have h3: "init_metrics ''mse'' 2
      = Inr (- 1, Mean_squared_error, Mean_squared_error, [PInf, PInf])"
    by code_simp
  have b0: "list_all (\<lambda>x. x \<noteq> NaN) (max_metric_tests (ex_mse_state False))" by code_simp
  note t1 = nan_score_rejected[where s = "set_metric (ex_mse_state False)" and c = 1
      and env = nan_env and ds = ex_ds and ids = ex_impute_ds and imputer = "ex_imputer 5"
      and tr = NaN and model = "(ex_imputer 5)\<lparr>fitted_on := [nums [2, 4]]\<rparr>"
      and imputer' = "(ex_imputer 5)\<lparr>fitted_on := [nums [2, 4]]\<rparr>"]
  note t2 = nan_score_rejected[where s = "ex_mse_state False" and env = nan_env
      and imputers = "[ex_imputer 5]"
      and s' = "ex_after (ex_mse_state False) (36 / 5) [Fin 1, PInf]"
      and out = "([ex_fitted 5], [0], [False])"]
  have a: "can_impute (set_metric (ex_mse_state False)) 1 NaN
     = Inr (False, set_metric (ex_mse_state False))"
    using conjunct1[OF t1] len by (rule mp)
  have b: "process_each_column nan_env (set_metric (ex_mse_state False)) (ex_imputer 5) 1
     = Inr (False, ([NaN], [NaN]), set_metric (ex_mse_state False),
            (ex_imputer 5)\<lparr>fitted_on := [nums [2, 4]]\<rparr>)"
    using conjunct1[OF conjunct2[OF t1]] len yt nan_prepared nan_selected by simp
  have c: "list_all (\<lambda>x. x \<noteq> NaN)
     (max_metric_tests (ex_after (ex_mse_state False) (36 / 5) [Fin 1, PInf]))"
    using conjunct2[OF conjunct2[OF conjunct2[OF t2]]] b0 nan_run by simp
  show ?thesis by (rule conjI[OF a conjI[OF b conjI[OF h3 conjI[OF nan_run c]]]])
qed


subsection \<open>What a run leaves alone\<close>

lemma data_rel_refl: "data_rel s s"
  by (simp add: data_rel_def)

lemma data_rel_trans: "data_rel s0 s1 \<Longrightarrow> data_rel s1 s2 \<Longrightarrow> data_rel s0 s2"
  unfolding data_rel_def by (intro conjI; simp)

lemma length_write_rows: "length (write_rows col rows preds) = length col"
  by (induction col rows preds rule: write_rows.induct) auto

lemma write_rows_other: "r \<notin> set rows \<Longrightarrow> write_rows col rows preds ! r = col ! r"
  by (induction col rows preds rule: write_rows.induct) auto

lemma can_impute_data_rel: "can_impute s c x = Inr (b, s') \<Longrightarrow> data_rel s s'"
  by (auto simp: can_impute_def data_rel_def Let_def split: if_splits)

lemma apply_best_model_data_rel:
  assumes "apply_best_model env m ids c s = Inr s'"
    and "y_missing_index ids = rows_where (\<lambda>v. \<not> notna v) (snd (working_data s ! c))"
  shows "data_rel s s'"
proof -
  let ?col = "write_rows (imputed_df s ! c) (y_missing_index ids) (predict env m (x_missing ids))"
  have s': "s' = s\<lparr>imputed_df := (imputed_df s)[c := ?col]\<rparr>"
    using assms(1) by (auto simp: apply_best_model_def Let_def split: if_splits)
  have keep: "?col ! r = imputed_df s ! c ! r"
    if "r < length (snd (working_data s ! c))" "notna (snd (working_data s ! c) ! r)" for r
    using that assms(2) by (intro write_rows_other) (simp add: rows_where_def)
  have cell: "(imputed_df s)[c := ?col] ! k ! r = imputed_df s ! k ! r"
    if "k < length (imputed_df s)" "r < length (snd (working_data s ! k))"
      "notna (snd (working_data s ! k) ! r)" for k r
    using that keep by (cases "k = c") simp_all
  have len: "length ((imputed_df s)[c := ?col] ! k) = length (imputed_df s ! k)"
    if "k < length (imputed_df s)" for k
    using that by (cases "k = c") (simp_all add: length_write_rows)
  show ?thesis
    unfolding data_rel_def s' by (simp add: cell len)
qed

lemma dataset_preparation_missing:
  "dataset_preparation env s c = Inr (ds, ids) \<Longrightarrow>
   y_missing_index ids = rows_where (\<lambda>v. \<not> notna v) (snd (working_data s ! c))"
  by (auto simp: dataset_preparation_def Let_def split: sum.splits if_splits prod.splits)

lemma process_each_column_data_rel:
  assumes "process_each_column env s imp c = Inr (u, sc, s', imp')"
  shows "data_rel s s'"
proof (cases "dataset_preparation env s c")
  case (Inl e)
  with assms show ?thesis by (simp add: process_each_column_def)
next
  case (Inr p)
  obtain ds ids where p: "p = (ds, ids)" by (cases p)
  note prep = Inr[unfolded p]
  note miss = dataset_preparation_missing[OF prep]
  show ?thesis
  proof (cases "2 \<le> length (y_test ds)")
    case False
    with assms prep show ?thesis by (simp add: process_each_column_def data_rel_refl)
  next
    case True
    from assms prep True obtain best model imp1 acc s1 where
      ci: "can_impute s c (snd best) = Inr (acc, s1)"
      and rest: "(acc \<and> apply_best_model env model ids c s1 = Inr s') \<or> (\<not> acc \<and> s' = s1)"
      by (auto simp: process_each_column_def split: sum.splits if_splits prod.splits)
    from can_impute_data_rel[OF ci] have r1: "data_rel s s1" .
    then have wd: "working_data s1 = working_data s" by (simp add: data_rel_def)
    from rest show ?thesis
    proof
      assume "acc \<and> apply_best_model env model ids c s1 = Inr s'"
      then have "data_rel s1 s'"
        using apply_best_model_data_rel[of env model ids c s1 s'] miss wd by simp
      with r1 show ?thesis by (rule data_rel_trans)
    next
      assume "\<not> acc \<and> s' = s1"
      with r1 show ?thesis by simp
    qed
  qed
qed

lemma select_column_data_rel: "data_rel s (select_column s c b)"
  by (simp add: data_rel_def select_column_def set_metric_def)

lemma process_column_step_data_rel:
  assumes "process_column_step env c (s, imp, n) = Inr (s', imp', n')"
  shows "data_rel s s'"
proof -
  have "s' = select_column s c (categorical_columns s ! c) \<or>
        data_rel (select_column s c (categorical_columns s ! c)) s'"
    using assms
    by (auto simp: process_column_step_def Let_def
        split: sum.splits if_splits prod.splits
        dest: can_impute_data_rel process_each_column_data_rel)
  then show ?thesis
    using select_column_data_rel[of s c "categorical_columns s ! c"]
    by (auto intro: data_rel_trans)
qed

lemma columns_loop_data_rel:
  "columns_loop env cs (s, imp, n) = Inr (s', imp', n') \<Longrightarrow> data_rel s s'"
proof (induction cs arbitrary: s imp n)
  case Nil
  then show ?case by (simp add: data_rel_refl)
next
  case (Cons c cs)
  then show ?case
    by (auto split: sum.splits intro: data_rel_trans dest: process_column_step_data_rel)
qed

lemma process_each_imputer_data_rel:
  "process_each_imputer env s imp = Inr (n, s', imp') \<Longrightarrow> data_rel s s'"
  by (auto simp: process_each_imputer_def split: sum.splits dest: columns_loop_data_rel)

lemma stages_loop_data_rel:
  "stages_loop env imps (s, dn, cnts, pr) = Inr (s', dn', cnts', pr') \<Longrightarrow> data_rel s s'"
proof (induction imps arbitrary: s dn cnts pr)
  case Nil
  then show ?case by (simp add: data_rel_refl)
next
  case (Cons i imps)
  then show ?case
    by (auto split: sum.splits intro: data_rel_trans dest: process_each_imputer_data_rel)
qed

lemma fit_transform_data_rel:
  "fit_transform env s imps = Inr (s', dn, cnts, pr) \<Longrightarrow> data_rel s s'"
  by (auto simp: fit_transform_def dest: stages_loop_data_rel)

subsection \<open>C1: early stopping\<close>

lemma stages_loop_counts:
  "stages_loop env imps (s, dn, cnts, pr) = Inr (s', dn', cnts', pr') \<Longrightarrow>
   length cnts' = length cnts + length imps \<and> length dn' = length dn + length imps"
proof (induction imps arbitrary: s dn cnts pr)
  case Nil
  then show ?case by simp
next
  case (Cons i imps)
  then show ?case by (fastforce split: sum.splits)
qed

lemma fit_transform_runs_every_stage:
  "fit_transform env s imps = Inr (s', dn, cnts, pr) \<Longrightarrow> length cnts = length imps"
  using stages_loop_counts[of env imps s "[]" "[]" "[]" s' dn cnts pr]
  by (simp add: fit_transform_def)

text \<open>
  Claim C1, on the code. With early stopping enabled, a window of one stage and a
  tolerance of 0.1, the second stage of this run updates no column and
  \<^verbatim>\<open>__check_early_stopping\<close> returns true after it; the run does not halt there: with a
  third estimator in the sequence the third stage is processed, trains that estimator and
  updates a column.
\<close>

theorem early_stopping_does_not_stop:
  "fit_transform ex_env (ex_mse_state True) [ex_imputer 9, ex_imputer 9]
     = Inr (ex_after (ex_mse_state True) 9 [Fin 1, Fin (11 / 3)],
            [ex_fitted 9, ex_fitted 9], [1, 0], [False, True]) \<and>
   check_early_stopping (ex_after (ex_mse_state True) 9 [Fin 1, Fin (11 / 3)]) [1, 0] = Inr True \<and>
   fit_transform ex_env (ex_mse_state True) [ex_imputer 9, ex_imputer 9, ex_imputer 10]
     = Inr (ex_after (ex_mse_state True) 10 [Fin 1, Fin (8 / 3)],
            [ex_fitted 9, ex_fitted 9, ex_fitted 10], [1, 0, 1], [False, True, False])"
  by code_simp

subsection \<open>C2: an unsupported metric\<close>

text \<open>
  Claim C2, as amended. For a metric that is not supported, construction never succeeds,
  but the metric is checked last: an error of the cleaning, of the encoding or of the
  initial fill is the one raised, and the configuration error is raised once the three
  steps have completed.
\<close>

theorem invalid_metric_raised_last:
  assumes "m \<notin> set acceptable_metrics"
  shows "(\<exists>e. MissMixed_init env raw cc m strategy ts es ips tol = Inl e) \<and>
   (clean_working_data cc raw = Inl e_clean \<longrightarrow>
      MissMixed_init env raw cc m strategy ts es ips tol = Inl e_clean) \<and>
   (clean_working_data cc raw = Inr (cc', wd) \<and> process_categorical_data cc' wd = Inl e_encode \<longrightarrow>
      MissMixed_init env raw cc m strategy ts es ips tol = Inl e_encode) \<and>
   (clean_working_data cc raw = Inr (cc', wd) \<and>
    process_categorical_data cc' wd = Inr (wd', encs, sh) \<and>
    simple_imputer env strategy wd' = Inl e_fill \<longrightarrow>
      MissMixed_init env raw cc m strategy ts es ips tol = Inl e_fill) \<and>
   (clean_working_data cc raw = Inr (cc', wd) \<and>
    process_categorical_data cc' wd = Inr (wd', encs, sh) \<and>
    simple_imputer env strategy wd' = Inr imputed \<longrightarrow>
      MissMixed_init env raw cc m strategy ts es ips tol = Inl InvalidMetric)"
proof -
  have im: "\<And>n. init_metrics m n = Inl InvalidMetric"
    using assms by (simp add: init_metrics_def)
  have p0: "\<exists>e. MissMixed_init env raw cc m strategy ts es ips tol = Inl e"
    by (simp add: MissMixed_init_def im split: sum.splits prod.splits)
  have p1: "clean_working_data cc raw = Inl e_clean \<longrightarrow>
      MissMixed_init env raw cc m strategy ts es ips tol = Inl e_clean"
    by (simp add: MissMixed_init_def)
  have p2: "clean_working_data cc raw = Inr (cc', wd) \<and> process_categorical_data cc' wd = Inl e_encode \<longrightarrow>
      MissMixed_init env raw cc m strategy ts es ips tol = Inl e_encode"
    by (simp add: MissMixed_init_def)
  have p3: "clean_working_data cc raw = Inr (cc', wd) \<and>
    process_categorical_data cc' wd = Inr (wd', encs, sh) \<and>
    simple_imputer env strategy wd' = Inl e_fill \<longrightarrow>
      MissMixed_init env raw cc m strategy ts es ips tol = Inl e_fill"
    by (simp add: MissMixed_init_def)
  have p4: "clean_working_data cc raw = Inr (cc', wd) \<and>
    process_categorical_data cc' wd = Inr (wd', encs, sh) \<and>
    simple_imputer env strategy wd' = Inr imputed \<longrightarrow>
      MissMixed_init env raw cc m strategy ts es ips tol = Inl InvalidMetric"
    by (simp add: MissMixed_init_def im)
  show ?thesis by (rule conjI[OF p0 conjI[OF p1 conjI[OF p2 conjI[OF p3 p4]]]])
qed

text \<open>
  With the metric \<^verbatim>\<open>bogus\<close>, a categorical column that mixes strings and numbers makes
  construction raise the encoder's error, and the table \<open>raw_two_empty\<close> an index error:
  the data was processed before the metric was looked at.
\<close>

theorem invalid_metric_counterexample:
  "MissMixed_init ex_env raw_mixed_types [True] ''bogus'' ''mean'' (1 / 2) False 1 (1 / 10)
     = Inl TypeError \<and>
   MissMixed_init ex_env raw_two_empty [False, False, False] ''bogus'' ''mean'' (1 / 2) False 1
     (1 / 10) = Inl IndexError"
  by code_simp

theorem invalid_metric_raised_last_witness:
  "''bogus'' \<notin> set acceptable_metrics \<and>
   clean_working_data [False, False] ex_raw = Inr ([False, False], ex_raw) \<and>
   process_categorical_data [False, False] ex_raw
     = Inr (ex_raw, [], shared (ex_mse_state False)) \<and>
   simple_imputer ex_env ''mean'' ex_raw = Inr (imputed_df (ex_mse_state False)) \<and>
   MissMixed_init ex_env ex_raw [False, False] ''bogus'' ''mean'' (1 / 2) False 1 (1 / 10)
     = Inl InvalidMetric \<and>
   clean_working_data [True] raw_mixed_types = Inr ([True], raw_mixed_types) \<and>
   process_categorical_data [True] raw_mixed_types = Inl TypeError \<and>
   MissMixed_init ex_env raw_mixed_types [True] ''bogus'' ''mean'' (1 / 2) False 1 (1 / 10)
     = Inl TypeError"
proof -
  have m: "''bogus'' \<notin> set acceptable_metrics" by code_simp
  have c: "clean_working_data [False, False] ex_raw = Inr ([False, False], ex_raw)"
    by code_simp
  have e: "process_categorical_data [False, False] ex_raw
     = Inr (ex_raw, [], shared (ex_mse_state False))" by code_simp
  have f: "simple_imputer ex_env ''mean'' ex_raw = Inr (imputed_df (ex_mse_state False))"
    by code_simp
  have c2: "clean_working_data [True] raw_mixed_types = Inr ([True], raw_mixed_types)"
    by code_simp
  have enc_fail: "process_categorical_data [True] raw_mixed_types = Inl TypeError" by code_simp
  note t = invalid_metric_raised_last[OF m, where env = ex_env and strategy = "''mean''"
      and ts = "1 / 2" and es = False and ips = 1 and tol = "1 / 10"]
  have r1: "MissMixed_init ex_env ex_raw [False, False] ''bogus'' ''mean'' (1 / 2) False 1 (1 / 10)
     = Inl InvalidMetric"
    using t[where raw = ex_raw and cc = "[False, False]" and cc' = "[False, False]"
        and wd = ex_raw and wd' = ex_raw and encs = "[]" and sh = "shared (ex_mse_state False)"
        and imputed = "imputed_df (ex_mse_state False)"] c e f by simp
  have r2: "MissMixed_init ex_env raw_mixed_types [True] ''bogus'' ''mean'' (1 / 2) False 1 (1 / 10)
     = Inl TypeError"
    using t[where raw = raw_mixed_types and cc = "[True]" and cc' = "[True]"
        and wd = raw_mixed_types and e_encode = TypeError] c2 enc_fail by simp
  show ?thesis
    by (rule conjI[OF m conjI[OF c conjI[OF e conjI[OF f conjI[OF r1 conjI[OF c2 conjI[OF enc_fail r2]]]]]]])
qed

subsection \<open>C3: imputed values and the clamp\<close>

text \<open>
  Claim C3, on the code. The predictions are clamped where they are scored, but
  \<^verbatim>\<open>__apply_best_model\<close> writes the predictions of the selected estimator as they are:
  an estimator that predicts \<open>- 1\<close> is accepted and \<open>- 1\<close> is written into the missing cell
  of the numerical column.
\<close>

theorem imputed_value_negative:
  "MissMixed_init ex_env ex_raw [False, False] ''mse'' ''mean'' (1 / 2) False 1 (1 / 10)
     = Inr (ex_mse_state False) \<and>
   fit_transform ex_env (ex_mse_state False) [ex_imputer (- 1)]
     = Inr (ex_after (ex_mse_state False) (- 1) [Fin 1, Fin (308 / 3)],
            [ex_fitted (- 1)], [1], [False]) \<and>
   imputed_df (ex_after (ex_mse_state False) (- 1) [Fin 1, Fin (308 / 3)]) ! 1 ! 2 = Fin (- 1) \<and>
   fl_less (Fin (- 1)) (Fin 0)"
  by code_simp

subsection \<open>C4: normalization of the features\<close>

lemma normalize_all_or_none:
  "normalize sh df_x = map normalize_column df_x \<or> normalize sh df_x = df_x"
  by (simp add: normalize_def)

text \<open>
  Claim C4, on the code. Whether the features are scaled depends on the flag of the
  target column alone. For the numerical target (column 0) both features are scaled to
  the range from 0 to 10, the categorical one too (its codes 0, 1, 2 become 0, 5, 10);
  for the categorical target (column 1) no feature is scaled, the numerical ones
  neither.
\<close>

theorem normalize_follows_target:
  "MissMixed_init ex_env raw_mixed [False, True, False] ''mse'' ''mean'' (1 / 2) False 1 (1 / 10)
     = Inr mixed_state \<and>
   dataset_preparation ex_env (select_column mixed_state 0 False) 0
     = Inr (\<lparr>x_train = [[Fin 0, Fin 0], [Fin 10, Fin 4]], y_train = nums [1, 3],
             x_test = [[Fin 5, Fin 6], [Fin 0, Fin 8], [Fin 10, Fin 10]],
             y_test = nums [4, 5, 6]\<rparr>,
            \<lparr>x_missing = [[Fin 5, Fin 2]], y_missing_index = [1]\<rparr>) \<and>
   dataset_preparation ex_env (select_column mixed_state 1 True) 1
     = Inr (\<lparr>x_train = [[Fin 1, Fin 10], [Fin (19 / 5), Fin 20], [Fin 3, Fin 30]],
             y_train = nums [0, 1, 2],
             x_test = [[Fin 4, Fin 40], [Fin 5, Fin 50], [Fin 6, Fin 60]],
             y_test = nums [1, 0, 2]\<rparr>,
            \<lparr>x_missing = [], y_missing_index = []\<rparr>)"
  by code_simp

subsection \<open>C5: the score of a complete column\<close>

text \<open>
  Claim C5, on the code. When the metric is minimized (\<^verbatim>\<open>mse\<close>, direction \<open>- 1\<close>), a column
  without missing values gets the score 1, not 0: the direction is never zero, so the
  test \<^verbatim>\<open>1 if self.metric_direction else 0\<close> always gives 1. The data is left as it is.
\<close>

theorem sentinel_is_one_when_minimizing:
  "MissMixed_init ex_env ex_raw [False, False] ''mse'' ''mean'' (1 / 2) False 1 (1 / 10)
     = Inr (ex_mse_state False) \<and>
   metric_direction (ex_mse_state False) = - 1 \<and>
   process_column_step ex_env 0 (ex_mse_state False, ex_imputer 9, 0)
     = Inr ((select_column (ex_mse_state False) 0 False)\<lparr>max_metric_tests := [Fin 1, PInf]\<rparr>,
            (ex_imputer 9)\<lparr>selected := True\<rparr>, 0)"
  by code_simp

subsection \<open>C6: complete columns after a dropped column\<close>

text \<open>
  Claim C6, on the code. After the first column of \<open>raw_shifted\<close> has been dropped, the
  test for missing values still reads \<^verbatim>\<open>raw_data\<close> by position: the complete column (now at
  position 0) is trained (the estimator is fitted on its values 1, 2, 3 and the column
  counts as updated, with the score of that estimator), while the column with the missing
  cell (now at position 1) is taken for complete, gets the score 1 and keeps its
  initial fill.
\<close>

theorem complete_column_trained_after_drop:
  "MissMixed_init ex_env raw_shifted [False, False, False] ''mse'' ''mean'' (1 / 2) False 1 (1 / 10)
     = Inr shifted_state \<and>
   fit_transform ex_env shifted_state [ex_imputer 9]
     = Inr (shifted_state
              \<lparr>shared := (shared shifted_state)\<lparr>sd_processing_col_idx := Some 1,
                                                 sd_is_categorical := Some False\<rparr>,
                max_metric_tests := [Fin (50 / 3), Fin 1],
                metric := Some Mean_squared_error\<rparr>,
            [(ex_imputer 9)\<lparr>selected := True, fitted_on := [nums [1, 2, 3]]\<rparr>],
            [1], [False])"
  by code_simp

subsection \<open>C8: cleaning and the flag list\<close>

text \<open>
  Claim C8, on the code. When the first two of four columns are dropped, the flags
  deleted are those of the columns 0 and 2: the surviving categorical column 2 is left
  with the flag of column 1. When the last two of three columns are dropped, the second
  deletion is out of range and construction raises.
\<close>

theorem flags_misaligned_after_two_drops:
  "clean_working_data [False, False, True, False] raw_front_empty
     = Inr ([False, False], [raw_front_empty ! 2, raw_front_empty ! 3]) \<and>
   clean_working_data [False, False, False] raw_two_empty = Inl IndexError"
  by code_simp

subsection \<open>C9: encoding and decoding a categorical value\<close>

lemma set_insort_cell: "set (insort_cell x xs) = insert x (set xs)"
  by (induction xs) auto

lemma set_sort_cells: "set (sort_cells xs) = set xs"
  unfolding sort_cells_def by (induction xs) (auto simp: set_insort_cell)

lemma index_of_nth: "v \<in> set xs \<Longrightarrow> index_of xs v < length xs \<and> xs ! index_of xs v = v"
  by (induction xs) auto

lemma label_encoder_round_trip:
  assumes "label_encoder_fit xs = Inr classes" and "v \<in> set xs"
  shows "label_encoder_inverse_transform classes [int (index_of classes v)] = Inr [v]"
proof -
  have "v \<in> set classes"
    using assms by (auto simp: label_encoder_fit_def set_sort_cells split: if_splits)
  from index_of_nth[OF this] show ?thesis by simp
qed

lemma encode_loop_spec:
  "encode_loop i bs (wd, encs, counts) = Inr (wd', encs', counts') \<Longrightarrow>
   length wd' = length wd \<and>
   (\<forall>c < i. wd' ! c = wd ! c \<and> map_of encs' c = map_of encs c) \<and>
   (\<forall>j < length bs. bs ! j \<longrightarrow>
      (\<exists>classes. label_encoder_fit (filter notna (snd (wd ! (i + j)))) = Inr classes \<and>
         map_of encs' (i + j) = Some classes \<and>
         wd' ! (i + j) = (fst (wd ! (i + j)), encode_column classes (snd (wd ! (i + j))))))"
proof (induction bs arbitrary: i wd encs counts)
  case Nil
  then show ?case by simp
next
  case (Cons b bs)
  show ?case
  proof (cases b)
    case False
    with Cons.prems have r: "encode_loop (Suc i) bs (wd, encs, counts) = Inr (wd', encs', counts')"
      by simp
    note ih = Cons.IH[OF r]
    show ?thesis
    proof (intro conjI allI impI)
      show "length wd' = length wd" using ih by simp
    next
      fix c assume "c < i"
      then show "wd' ! c = wd ! c" "map_of encs' c = map_of encs c" using ih by simp_all
    next
      fix j assume j: "j < length (b # bs)" and bj: "(b # bs) ! j"
      from bj False obtain k where k: "j = Suc k" by (cases j) auto
      with j bj have "k < length bs" "bs ! k" by simp_all
      with ih k show "\<exists>classes. label_encoder_fit (filter notna (snd (wd ! (i + j)))) = Inr classes \<and>
         map_of encs' (i + j) = Some classes \<and>
         wd' ! (i + j) = (fst (wd ! (i + j)), encode_column classes (snd (wd ! (i + j))))"
        by simp
    qed
  next
    case True
    with Cons.prems have iw: "i < length wd"
      by (auto split: if_splits)
    from True Cons.prems iw obtain classes where
      fit: "label_encoder_fit (filter notna (snd (wd ! i))) = Inr classes"
      and r: "encode_loop (Suc i) bs
               (wd[i := (fst (wd ! i), encode_column classes (snd (wd ! i)))],
                (i, classes) # encs, counts[i := length classes]) = Inr (wd', encs', counts')"
      by (auto simp: Let_def split: sum.splits)
    note ih = Cons.IH[OF r]
    show ?thesis
    proof (intro conjI allI impI)
      show "length wd' = length wd" using ih by simp
    next
      fix c assume "c < i"
      then show "wd' ! c = wd ! c" "map_of encs' c = map_of encs c" using ih by simp_all
    next
      fix j assume j: "j < length (b # bs)" and bj: "(b # bs) ! j"
      show "\<exists>classes. label_encoder_fit (filter notna (snd (wd ! (i + j)))) = Inr classes \<and>
         map_of encs' (i + j) = Some classes \<and>
         wd' ! (i + j) = (fst (wd ! (i + j)), encode_column classes (snd (wd ! (i + j))))"
      proof (cases j)
        case 0
        have "wd' ! i = (fst (wd ! i), encode_column classes (snd (wd ! i)))"
          "map_of encs' i = Some classes"
          using ih iw by simp_all
        with fit 0 show ?thesis by simp
      next
        case (Suc k)
        with j bj have "k < length bs" "bs ! k" by simp_all
        with ih Suc show ?thesis by simp
      qed
    qed
  qed
qed

lemma astype_int64_code: "astype_int64 [Fin (of_nat k)] = Inr [int k]"
  by simp

lemma encode_then_decode:
  assumes "process_categorical_data cc wd = Inr (wd', encs, sh)"
    and "c < length cc" and "cc ! c"
    and "r < length (snd (wd ! c))" and "notna (snd (wd ! c) ! r)"
  shows "\<exists>classes code.
     map_of encs c = Some classes \<and>
     snd (wd' ! c) ! r = Num (Fin (of_int code)) \<and>
     astype_int64 [cell_float (snd (wd' ! c) ! r)] = Inr [code] \<and>
     label_encoder_inverse_transform classes [code] = Inr [snd (wd ! c) ! r]"
proof -
  from assms(1) obtain counts where
    loop: "encode_loop 0 cc (wd, [], replicate (length wd) 1) = Inr (wd', encs, counts)"
    by (auto simp: process_categorical_data_def split: sum.splits)
  from encode_loop_spec[OF loop] assms(2,3) obtain classes where
    fit: "label_encoder_fit (filter notna (snd (wd ! c))) = Inr classes"
    and enc: "map_of encs c = Some classes"
    and col: "wd' ! c = (fst (wd ! c), encode_column classes (snd (wd ! c)))"
    by auto
  let ?v = "snd (wd ! c) ! r"
  have mem: "?v \<in> set (filter notna (snd (wd ! c)))"
    using assms(4,5) by simp
  have cellv: "snd (wd' ! c) ! r = Num (Fin (of_int (int (index_of classes ?v))))"
    using col assms(4,5) by (simp add: encode_column_def label_encoder_transform_def)
  have "astype_int64 [cell_float (snd (wd' ! c) ! r)] = Inr [int (index_of classes ?v)]"
    using col assms(4,5) by (simp add: encode_column_def label_encoder_transform_def)
  with enc cellv label_encoder_round_trip[OF fit mem] show ?thesis by blast
qed

lemma fill_column_spec:
  "fill_column stat col = Inr col' \<Longrightarrow>
   length col' = length col \<and>
   (\<forall>r < length col. notna (col ! r) \<longrightarrow> col' ! r = cell_float (col ! r))"
  by (auto simp: fill_column_def split: if_splits sum.splits)

lemma fill_columns_spec:
  "fill_columns stat cols = Inr m \<Longrightarrow>
   length m = length cols \<and>
   (\<forall>c < length cols. length (m ! c) = length (cols ! c) \<and>
      (\<forall>r < length (cols ! c). notna (cols ! c ! r) \<longrightarrow> m ! c ! r = cell_float (cols ! c ! r)))"
proof (induction cols arbitrary: m)
  case Nil
  then show ?case by simp
next
  case (Cons col cols)
  from Cons.prems obtain col' m' where
    c: "fill_column stat col = Inr col'" and r: "fill_columns stat cols = Inr m'"
    and m: "m = col' # m'"
    by (auto split: sum.splits)
  note ih = Cons.IH[OF r] and hd = fill_column_spec[OF c]
  show ?case
  proof (intro conjI allI impI)
    show "length m = length (col # cols)" using ih m by simp
  next
    fix k assume "k < length (col # cols)"
    then show "length (m ! k) = length ((col # cols) ! k)"
      using ih hd m by (cases k) simp_all
  next
    fix k r assume "k < length (col # cols)" "r < length ((col # cols) ! k)"
      "notna ((col # cols) ! k ! r)"
    then show "m ! k ! r = cell_float ((col # cols) ! k ! r)"
      using ih hd m by (cases k) simp_all
  qed
qed

lemma astype_int64_nth:
  "astype_int64 xs = Inr ks \<Longrightarrow>
   length ks = length xs \<and>
   (\<forall>r < length xs. \<forall>q. xs ! r = Fin q \<longrightarrow> ks ! r = (if q \<ge> 0 then \<lfloor>q\<rfloor> else \<lceil>q\<rceil>))"
proof (induction xs arbitrary: ks)
  case Nil
  then show ?case by simp
next
  case (Cons x xs)
  from Cons.prems obtain q0 ks' where x: "x = Fin q0"
    and r: "astype_int64 xs = Inr ks'"
    and ks: "ks = (if q0 \<ge> 0 then \<lfloor>q0\<rfloor> else \<lceil>q0\<rceil>) # ks'"
    by (cases x) (auto split: sum.splits)
  note ih = Cons.IH[OF r]
  show ?case
  proof (intro conjI allI impI)
    show "length ks = length (x # xs)" using ih ks by simp
  next
    fix r q assume "r < length (x # xs)" "(x # xs) ! r = Fin q"
    then show "ks ! r = (if q \<ge> 0 then \<lfloor>q\<rfloor> else \<lceil>q\<rceil>)"
      using ih ks x by (cases r) auto
  qed
qed

lemma inverse_transform_nth:
  "label_encoder_inverse_transform classes ks = Inr vs \<Longrightarrow>
   length vs = length ks \<and> (\<forall>r < length ks. vs ! r = classes ! nat (ks ! r))"
proof (induction ks arbitrary: vs)
  case Nil
  then show ?case by simp
next
  case (Cons k ks)
  from Cons.prems obtain vs' where r: "label_encoder_inverse_transform classes ks = Inr vs'"
    and vs: "vs = classes ! nat k # vs'"
    by (auto split: if_splits sum.splits)
  note ih = Cons.IH[OF r]
  show ?case
  proof (intro conjI allI impI)
    show "length vs = length (k # ks)" using ih vs by simp
  next
    fix r assume "r < length (k # ks)"
    then show "vs ! r = classes ! nat ((k # ks) ! r)"
      using ih vs by (cases r) auto
  qed
qed

lemma result_loop_spec:
  "result_loop s ixs out = Inr out' \<Longrightarrow>
   length out' = length out \<and>
   (\<forall>i. i \<notin> set ixs \<longrightarrow> out' ! i = out ! i) \<and>
   (\<forall>i \<in> set ixs. i < length (categorical_columns s) \<and>
      (i < length out \<and> categorical_columns s ! i \<longrightarrow> decode_column s i = Inr (out' ! i)))"
proof (induction ixs arbitrary: out)
  case Nil
  then show ?case by simp
next
  case (Cons i ixs)
  from Cons.prems have il: "i < length (categorical_columns s)"
    by (auto split: if_splits)
  show ?case
  proof (cases "categorical_columns s ! i")
    case False
    with Cons.prems il have r: "result_loop s ixs out = Inr out'" by simp
    note ih = Cons.IH[OF r]
    show ?thesis using ih il False by auto
  next
    case True
    with Cons.prems il obtain col where d: "decode_column s i = Inr col"
      and r: "result_loop s ixs (out[i := col]) = Inr out'"
      by (auto split: sum.splits)
    note ih = Cons.IH[OF r]
    have here: "decode_column s i = Inr (out' ! i)" if "i < length out"
    proof (cases "i \<in> set ixs")
      case True
      then show ?thesis using ih that \<open>categorical_columns s ! i\<close> by simp
    next
      case False
      then have "out' ! i = out[i := col] ! i" using ih by simp
      then show ?thesis using d that by simp
    qed
    show ?thesis
    proof (intro conjI allI ballI impI)
      show "length out' = length out" using ih by simp
    next
      fix j assume "j \<notin> set (i # ixs)"
      then show "out' ! j = out ! j" using ih by simp
    next
      fix j assume "j \<in> set (i # ixs)"
      then show "j < length (categorical_columns s)" using ih il by auto
    next
      fix j assume j: "j \<in> set (i # ixs)" and c: "j < length out \<and> categorical_columns s ! j"
      show "decode_column s j = Inr (out' ! j)"
      proof (cases "j = i")
        case True
        then show ?thesis using here c by simp
      next
        case False
        then show ?thesis using j c ih by simp
      qed
    qed
  qed
qed

lemma label_encoder_fit_set:
  "label_encoder_fit xs = Inr classes \<Longrightarrow> set classes = set xs"
  by (auto simp: label_encoder_fit_def set_sort_cells split: if_splits)

lemma decoded_cell_restored:
  assumes init: "MissMixed_init env raw cc m strategy ts es ips tol = Inr s"
    and run: "fit_transform env s imputers = Inr (s', out)"
    and res: "result s' = Inr (table, scores)"
    and k: "k < num_of_columns s" and flag: "categorical_columns s ! k"
    and r: "r < length (snd (drop_columns (columns_to_be_dropped raw) raw ! k))"
    and obs: "notna (snd (drop_columns (columns_to_be_dropped raw) raw ! k) ! r)"
  shows "table ! k ! r = snd (drop_columns (columns_to_be_dropped raw) raw ! k) ! r"
proof -
  let ?wd = "drop_columns (columns_to_be_dropped raw) raw"
  let ?v = "snd (?wd ! k) ! r"
  from init obtain cc' wd' encs sh imputed where
    clean: "clean_working_data cc raw = Inr (cc', ?wd)"
    and enc: "process_categorical_data cc' ?wd = Inr (wd', encs, sh)"
    and fill: "simple_imputer env strategy wd' = Inr imputed"
    and s_wd: "working_data s = wd'" and s_cc: "categorical_columns s = cc'"
    and s_enc: "column_to_encoder s = encs" and s_n: "num_of_columns s = length wd'"
    and s_imp: "imputed_df s = imputed"
    by (auto simp: MissMixed_init_def clean_working_data_def Let_def
        split: sum.splits prod.splits)
  obtain dn cnts pr where out: "out = (dn, cnts, pr)" by (cases out)
  from fit_transform_data_rel[OF run[unfolded out]] have rel: "data_rel s s'" .
  from enc obtain counts where
    loop: "encode_loop 0 cc' (?wd, [], replicate (length ?wd) 1) = Inr (wd', encs, counts)"
    by (auto simp: process_categorical_data_def split: sum.splits)
  note spec = encode_loop_spec[OF loop]
  have len_wd: "length wd' = length ?wd" using spec by simp
  from fill have fc: "fill_columns (fill_statistic env strategy) (map snd wd') = Inr imputed"
    by (auto simp: simple_imputer_def split: if_splits)
  note fspec = fill_columns_spec[OF fc]
  have len_imp: "length imputed = length wd'" using fspec by simp
  from res have rl: "result_loop s' [0..<num_of_columns s'] (map (map Num) (imputed_df s'))
      = Inr table"
    by (auto simp: result_def split: sum.splits)
  have n': "num_of_columns s' = length wd'" and cc_s': "categorical_columns s' = cc'"
    and enc_s': "column_to_encoder s' = encs" and len_imp': "length (imputed_df s') = length wd'"
    using rel s_n s_cc s_enc s_imp len_imp by (simp_all add: data_rel_def)
  have kw: "k < length wd'" using k s_n by simp
  from result_loop_spec[OF rl] kw n' cc_s' len_imp' flag s_cc
  have kcc: "k < length cc'" and dec: "decode_column s' k = Inr (table ! k)"
    by auto
  from spec kcc flag s_cc obtain classes where
    fit: "label_encoder_fit (filter notna (snd (?wd ! k))) = Inr classes"
    and mo: "map_of encs k = Some classes"
    and col: "wd' ! k = (fst (?wd ! k), encode_column classes (snd (?wd ! k)))"
    by auto
  let ?idx = "index_of classes ?v"
  have "?v \<in> set (filter notna (snd (?wd ! k)))" using r obs by simp
  then have vin: "?v \<in> set classes" using label_encoder_fit_set[OF fit] by simp
  have wcell: "snd (wd' ! k) ! r = Num (Fin (of_nat ?idx))"
    using col r obs by (simp add: encode_column_def label_encoder_transform_def)
  have wlen: "length (snd (wd' ! k)) = length (snd (?wd ! k))"
    using col by (simp add: encode_column_def)
  have wobs: "notna (snd (wd' ! k) ! r)" using wcell by (simp add: notna_def)
  have icell: "imputed ! k ! r = Fin (of_nat ?idx)"
    using fspec kw r wlen wobs wcell by simp
  have ilen: "length (imputed ! k) = length (snd (?wd ! k))"
    using fspec kw wlen by simp
  have kimp: "k < length (imputed_df s)" using s_imp len_imp kw by simp
  have cell': "imputed_df s' ! k ! r = Fin (of_nat ?idx)"
    using rel kimp r wlen wobs icell s_wd s_imp by (simp add: data_rel_def)
  have len': "length (imputed_df s' ! k) = length (snd (?wd ! k))"
    using rel kimp ilen s_imp by (simp add: data_rel_def)
  from dec mo enc_s' len_imp' kw obtain codes where
    cast: "astype_int64 (imputed_df s' ! k) = Inr codes"
    and inv: "label_encoder_inverse_transform classes codes = Inr (table ! k)"
    by (auto simp: decode_column_def split: sum.splits if_splits)
  have code: "codes ! r = int ?idx" and clen: "length codes = length (imputed_df s' ! k)"
    using astype_int64_nth[OF cast] cell' len' r by simp_all
  have "table ! k ! r = classes ! nat (codes ! r)"
    using inverse_transform_nth[OF inv] clen len' r by simp
  then show ?thesis using code index_of_nth[OF vin] by simp
qed

text \<open>
  Claim C9. For a column flagged categorical, every observed value of the column is
  replaced by an integer code during construction, and decoding that code the way
  \<^verbatim>\<open>result\<close> does (the cast to \<^verbatim>\<open>int64\<close>, then \<^verbatim>\<open>inverse_transform\<close> of the column's
  encoder) gives the original value back. Hence, after construction and any run of
  \<^verbatim>\<open>fit_transform\<close>, the table that \<^verbatim>\<open>result\<close> returns holds the original value in every
  cell of a categorical column that was observed in the cleaned input.
\<close>

theorem categorical_round_trip:
  "(process_categorical_data cc wd = Inr (wd', encs, sh) \<and> c < length cc \<and> cc ! c \<and>
    r < length (snd (wd ! c)) \<and> notna (snd (wd ! c) ! r) \<longrightarrow>
      (\<exists>classes code.
         map_of encs c = Some classes \<and>
         snd (wd' ! c) ! r = Num (Fin (of_int code)) \<and>
         astype_int64 [cell_float (snd (wd' ! c) ! r)] = Inr [code] \<and>
         label_encoder_inverse_transform classes [code] = Inr [snd (wd ! c) ! r])) \<and>
   (MissMixed_init env raw flags m strategy ts es ips tol = Inr s \<and>
    fit_transform env s imputers = Inr (s', out) \<and>
    result s' = Inr (table, scores) \<and>
    k < num_of_columns s \<and> categorical_columns s ! k \<and>
    i < length (snd (drop_columns (columns_to_be_dropped raw) raw ! k)) \<and>
    notna (snd (drop_columns (columns_to_be_dropped raw) raw ! k) ! i) \<longrightarrow>
      table ! k ! i = snd (drop_columns (columns_to_be_dropped raw) raw ! k) ! i)"
proof -
  have p1: "process_categorical_data cc wd = Inr (wd', encs, sh) \<and> c < length cc \<and> cc ! c \<and>
    r < length (snd (wd ! c)) \<and> notna (snd (wd ! c) ! r) \<longrightarrow>
      (\<exists>classes code.
         map_of encs c = Some classes \<and>
         snd (wd' ! c) ! r = Num (Fin (of_int code)) \<and>
         astype_int64 [cell_float (snd (wd' ! c) ! r)] = Inr [code] \<and>
         label_encoder_inverse_transform classes [code] = Inr [snd (wd ! c) ! r])"
    by (rule impI, elim conjE) (rule encode_then_decode)
  have p2: "MissMixed_init env raw flags m strategy ts es ips tol = Inr s \<and>
    fit_transform env s imputers = Inr (s', out) \<and>
    result s' = Inr (table, scores) \<and>
    k < num_of_columns s \<and> categorical_columns s ! k \<and>
    i < length (snd (drop_columns (columns_to_be_dropped raw) raw ! k)) \<and>
    notna (snd (drop_columns (columns_to_be_dropped raw) raw ! k) ! i) \<longrightarrow>
      table ! k ! i = snd (drop_columns (columns_to_be_dropped raw) raw ! k) ! i"
    by (rule impI, elim conjE) (rule decoded_cell_restored)
  show ?thesis by (rule conjI[OF p1 p2])
qed

lemma ex_encoded:
  "process_categorical_data [False, True, False] raw_mixed
     = Inr (working_data mixed_state, column_to_encoder mixed_state, shared mixed_state)"
  by code_simp

lemma ex_mixed_init:
  "MissMixed_init ex_env raw_mixed [False, True, False] ''mse'' ''mean'' (1 / 2) False 1 (1 / 10)
     = Inr mixed_state"
  by code_simp

lemma ex_mixed_run:
  "fit_transform ex_env mixed_state [ex_imputer 2]
     = Inr (mixed_after, [(ex_imputer 2)\<lparr>selected := True, fitted_on := [nums [1, 3]]\<rparr>],
            [1], [False])"
  by code_simp

lemma ex_mixed_result:
  "result mixed_after
     = Inr ([nums [1, 2, 3, 4, 5, 6], snd (raw_mixed ! 1), nums [10, 20, 30, 40, 50, 60]],
            [Fin (29 / 3), Fin 1, Fin 1])"
  by code_simp

theorem categorical_round_trip_witness:
  "process_categorical_data [False, True, False] raw_mixed
     = Inr (working_data mixed_state, column_to_encoder mixed_state, shared mixed_state) \<and>
   (\<exists>classes code.
     map_of (column_to_encoder mixed_state) 1 = Some classes \<and>
     snd (working_data mixed_state ! 1) ! 2 = Num (Fin (of_int code)) \<and>
     astype_int64 [cell_float (snd (working_data mixed_state ! 1) ! 2)] = Inr [code] \<and>
     label_encoder_inverse_transform classes [code] = Inr [Str ''c'']) \<and>
   result mixed_after
     = Inr ([nums [1, 2, 3, 4, 5, 6], snd (raw_mixed ! 1), nums [10, 20, 30, 40, 50, 60]],
            [Fin (29 / 3), Fin 1, Fin 1]) \<and>
   [nums [1, 2, 3, 4, 5, 6], snd (raw_mixed ! 1), nums [10, 20, 30, 40, 50, 60]] ! 1 ! 2
     = Str ''c''"
proof -
  have h2: "1 < length [False, True, False]" by simp
  have h3: "[False, True, False] ! 1" by simp
  have h4: "2 < length (snd (raw_mixed ! 1))" by code_simp
  have h5: "notna (snd (raw_mixed ! 1) ! 2)" by code_simp
  have v: "snd (raw_mixed ! 1) ! 2 = Str ''c''" by code_simp
  have cl: "drop_columns (columns_to_be_dropped raw_mixed) raw_mixed = raw_mixed" by code_simp
  have n: "1 < num_of_columns mixed_state" by code_simp
  have fl: "categorical_columns mixed_state ! 1" by code_simp
  note t = categorical_round_trip[where cc = "[False, True, False]" and wd = raw_mixed
      and wd' = "working_data mixed_state" and encs = "column_to_encoder mixed_state"
      and sh = "shared mixed_state" and c = 1 and r = 2
      and env = ex_env and raw = raw_mixed and flags = "[False, True, False]"
      and m = "''mse''" and strategy = "''mean''" and ts = "1 / 2" and es = False
      and ips = 1 and tol = "1 / 10" and s = mixed_state and imputers = "[ex_imputer 2]"
      and s' = mixed_after
      and out = "([(ex_imputer 2)\<lparr>selected := True, fitted_on := [nums [1, 3]]\<rparr>], [1], [False])"
      and table = "[nums [1, 2, 3, 4, 5, 6], snd (raw_mixed ! 1), nums [10, 20, 30, 40, 50, 60]]"
      and scores = "[Fin (29 / 3), Fin 1, Fin 1]" and k = 1 and i = 2]
  have a: "\<exists>classes code.
     map_of (column_to_encoder mixed_state) 1 = Some classes \<and>
     snd (working_data mixed_state ! 1) ! 2 = Num (Fin (of_int code)) \<and>
     astype_int64 [cell_float (snd (working_data mixed_state ! 1) ! 2)] = Inr [code] \<and>
     label_encoder_inverse_transform classes [code] = Inr [Str ''c'']"
    using conjunct1[OF t] ex_encoded h2 h3 h4 h5 unfolding v by simp
  have b: "[nums [1, 2, 3, 4, 5, 6], snd (raw_mixed ! 1), nums [10, 20, 30, 40, 50, 60]] ! 1 ! 2
     = Str ''c''"
    using conjunct2[OF t] ex_mixed_init ex_mixed_run ex_mixed_result n fl h4 h5
    unfolding cl v by simp
  show ?thesis by (rule conjI[OF ex_encoded conjI[OF a conjI[OF ex_mixed_result b]]])
qed

text \<open>
  A column of the working table without a missing cell keeps its initial fill through
  any run, whatever the stages do with it.
\<close>

lemma complete_column_kept:
  assumes init: "MissMixed_init env raw cc m strategy ts es ips tol = Inr s"
    and run: "fit_transform env s imputers = Inr (s', out)"
    and k: "k < num_of_columns s"
    and full: "list_all notna (snd (working_data s ! k))"
  shows "imputed_df s' ! k = imputed_df s ! k"
proof -
  from init obtain wd' where
    fill: "simple_imputer env strategy wd' = Inr (imputed_df s)"
    and s_wd: "working_data s = wd'" and s_n: "num_of_columns s = length wd'"
    by (auto simp: MissMixed_init_def split: sum.splits prod.splits)
  from fill have "fill_columns (fill_statistic env strategy) (map snd wd') = Inr (imputed_df s)"
    by (auto simp: simple_imputer_def split: if_splits)
  note fspec = fill_columns_spec[OF this]
  obtain dn cnts pr where out: "out = (dn, cnts, pr)" by (cases out)
  from fit_transform_data_rel[OF run[unfolded out]] have rel: "data_rel s s'" .
  have kimp: "k < length (imputed_df s)" using fspec k s_n by simp
  have len: "length (imputed_df s ! k) = length (snd (working_data s ! k))"
    using fspec k s_n s_wd by simp
  show ?thesis
  proof (rule nth_equalityI)
    show "length (imputed_df s' ! k) = length (imputed_df s ! k)"
      using rel kimp by (simp add: data_rel_def)
  next
    fix j assume "j < length (imputed_df s' ! k)"
    then have j: "j < length (snd (working_data s ! k))"
      using rel kimp len by (simp add: data_rel_def)
    then have "notna (snd (working_data s ! k) ! j)"
      using full by (simp add: list_all_length)
    with j rel kimp show "imputed_df s' ! k ! j = imputed_df s ! k ! j"
      by (simp add: data_rel_def)
  qed
qed

end
